theory Spec2Isabelle
  imports Complex_Main
begin

section \<open>Values, exceptions and text\<close>

text \<open>
  Every value that crosses the tool boundary is JSON-shaped: the arguments a model reply
  carries, the bodies the data providers return and the results of the tools. A Python
  dict is an association list in insertion order whose lookup takes the first binding of
  a key; floats are exact rationals (rounding and the non-finite floats are not
  represented).
\<close>

datatype json =
    JNull
  | JBool bool
  | JInt int
  | JFloat rat
  | JStr string
  | JArr "json list"
  | JObj "(string \<times> json) list"

text \<open>
  Exceptions are values. \<open>ValueError\<close> carries its message, since the source writes those
  messages itself; \<open>RequestException\<close> and \<open>JSONDecodeError\<close> carry the text the HTTP
  library gave them; \<open>HTTPException\<close> carries the status and the exception it reports.
\<close>

datatype error =
    ValueError string
  | TypeError
  | AttributeError
  | KeyError
  | IndexError
  | OverflowError
  | ZeroDivisionError
  | RequestException string
  | JSONDecodeError string
  | HTTPException nat error

text \<open>Python truthiness: what \<open>if x:\<close> and \<open>not x\<close> test.\<close>

fun truthy :: "json \<Rightarrow> bool" where
  "truthy JNull = False"
| "truthy (JBool b) = b"
| "truthy (JInt i) = (i \<noteq> 0)"
| "truthy (JFloat r) = (r \<noteq> 0)"
| "truthy (JStr s) = (s \<noteq> [])"
| "truthy (JArr xs) = (xs \<noteq> [])"
| "truthy (JObj kvs) = (kvs \<noteq> [])"

subsection \<open>Characters and strings (ASCII text)\<close>

text \<open>
  Text is ASCII: letters are \<open>a\<close>..\<open>z\<close> and \<open>A\<close>..\<open>Z\<close>, digits are \<open>0\<close>..\<open>9\<close>, and a character
  above 0x7F is neither a letter, a digit nor whitespace.
\<close>

definition lower_letters :: string where
  "lower_letters = ''abcdefghijklmnopqrstuvwxyz''"

definition upper_letters :: string where
  "upper_letters = ''ABCDEFGHIJKLMNOPQRSTUVWXYZ''"

definition digit_chars :: string where
  "digit_chars = ''0123456789''"

definition is_lower :: "char \<Rightarrow> bool" where
  "is_lower c = (c \<in> set lower_letters)"

definition is_upper :: "char \<Rightarrow> bool" where
  "is_upper c = (c \<in> set upper_letters)"

definition is_digit :: "char \<Rightarrow> bool" where
  "is_digit c = (c \<in> set digit_chars)"

text \<open>\<open>\w\<close> of a regular expression: a letter, a digit or the underscore.\<close>

definition is_word :: "char \<Rightarrow> bool" where
  "is_word c = (is_lower c \<or> is_upper c \<or> is_digit c \<or> c = CHR ''_'')"

text \<open>
  \<open>str.isspace\<close> and \<open>\s\<close>: tab, line feed, vertical tab, form feed, carriage return, the
  four separators 0x1C..0x1F and the space.
\<close>

definition is_space :: "char \<Rightarrow> bool" where
  "is_space c = (c \<in> set [CHR 0x09, CHR 0x0A, CHR 0x0B, CHR 0x0C, CHR 0x0D,
                            CHR 0x1C, CHR 0x1D, CHR 0x1E, CHR 0x1F, CHR 0x20])"

definition lower_char :: "char \<Rightarrow> char" where
  "lower_char c = (case map_of (zip upper_letters lower_letters) c of Some l \<Rightarrow> l | None \<Rightarrow> c)"

definition upper_char :: "char \<Rightarrow> char" where
  "upper_char c = (case map_of (zip lower_letters upper_letters) c of Some u \<Rightarrow> u | None \<Rightarrow> c)"

definition lower :: "string \<Rightarrow> string" where
  "lower s = map lower_char s"

definition upper :: "string \<Rightarrow> string" where
  "upper s = map upper_char s"

definition strip :: "string \<Rightarrow> string" where
  "strip s = rev (dropWhile is_space (rev (dropWhile is_space s)))"

text \<open>
  \<open>str.title\<close>: a letter that follows a letter is lower-cased, a letter that does not is
  upper-cased; \<open>prev\<close> says whether the character before was a letter.
\<close>

fun title_from :: "bool \<Rightarrow> string \<Rightarrow> string" where
  "title_from prev [] = []"
| "title_from prev (c # cs) =
     (if is_lower c then (if prev then c else upper_char c) # title_from True cs
      else if is_upper c then (if prev then lower_char c else c) # title_from True cs
      else c # title_from False cs)"

definition title :: "string \<Rightarrow> string" where
  "title s = title_from False s"

subsection \<open>Decimal numerals\<close>

definition digit_val :: "char \<Rightarrow> nat" where
  "digit_val c = (case map_of (zip digit_chars [0, 1, 2, 3, 4, 5, 6, 7, 8, 9]) c of
                    Some v \<Rightarrow> v | None \<Rightarrow> 0)"

text \<open>\<open>int(s)\<close> on a string of decimal digits.\<close>

definition nat_of_digits :: "string \<Rightarrow> nat" where
  "nat_of_digits s = foldl (\<lambda>a c. 10 * a + digit_val c) 0 s"

definition digit_char :: "nat \<Rightarrow> char" where
  "digit_char n = digit_chars ! (n mod 10)"

fun digits_of_nat :: "nat \<Rightarrow> string" where
  "digits_of_nat n =
     (if n < 10 then [digit_char n] else digits_of_nat (n div 10) @ [digit_char n])"

text \<open>The \<open>%0wd\<close> of a format: decimal, padded with zeros on the left to width \<open>w\<close>.\<close>

definition zero_pad :: "nat \<Rightarrow> nat \<Rightarrow> string" where
  "zero_pad w n = replicate (w - length (digits_of_nat n)) (CHR ''0'') @ digits_of_nat n"

section \<open>Calendar dates\<close>

record date =
  year :: nat
  month :: nat
  day :: nat

definition is_leap :: "nat \<Rightarrow> bool" where
  "is_leap y = (y mod 4 = 0 \<and> (y mod 100 \<noteq> 0 \<or> y mod 400 = 0))"

definition days_in_month :: "nat \<Rightarrow> nat \<Rightarrow> nat" where
  "days_in_month y m =
     (if m = 2 then (if is_leap y then 29 else 28)
      else if m = 4 \<or> m = 6 \<or> m = 9 \<or> m = 11 then 30 else 31)"

text \<open>
  The constructor \<open>datetime(y, m, d)\<close>: the year within 1..9999, the month within 1..12,
  the day within the month, else a \<open>ValueError\<close>.
\<close>

definition make_date :: "nat \<Rightarrow> nat \<Rightarrow> nat \<Rightarrow> error + date" where
  "make_date y m d =
     (if y < 1 \<or> 9999 < y then Inl (ValueError (''year '' @ digits_of_nat y @ '' is out of range''))
      else if m < 1 \<or> 12 < m then Inl (ValueError ''month must be in 1..12'')
      else if d < 1 \<or> days_in_month y m < d then Inl (ValueError ''day is out of range for month'')
      else Inr \<lparr>year = y, month = m, day = d\<rparr>)"

definition isoformat :: "date \<Rightarrow> string" where
  "isoformat dt = zero_pad 4 (year dt) @ ''-'' @ zero_pad 2 (month dt) @ ''-'' @ zero_pad 2 (day dt)"

text \<open>\<open>d + timedelta(days=1)\<close>; past 9999-12-31 the addition overflows.\<close>

definition add_one_day :: "date \<Rightarrow> error + date" where
  "add_one_day dt =
     (if day dt < days_in_month (year dt) (month dt) then Inr (dt\<lparr>day := day dt + 1\<rparr>)
      else if month dt < 12 then Inr (dt\<lparr>month := month dt + 1, day := 1\<rparr>)
      else if year dt < 9999 then Inr \<lparr>year = year dt + 1, month = 1, day = 1\<rparr>
      else Inl OverflowError)"

section \<open>The environment of one turn\<close>

text \<open>
  What the code reads from outside itself, as parameters: the two API keys of the process
  environment, the answers of the HTTP library and of the model backend, the clock (one
  local date and one UTC timestamp for the whole turn), and the JSON and text rendering
  of the standard library.
\<close>

record http_response =
  status_code :: int
  json_body :: "string + json" \<comment> \<open>\<open>r.json()\<close>: \<open>Inl msg\<close> when the body is not JSON\<close>

record env =
  openweather_api_key :: "string option" \<comment> \<open>\<open>os.getenv("OPENWEATHER_API_KEY")\<close>\<close>
  newsapi_key :: "string option" \<comment> \<open>\<open>os.getenv("NEWSAPI_KEY")\<close>\<close>
  http_get :: "string \<Rightarrow> (string \<times> json) list \<Rightarrow> string + http_response"
    \<comment> \<open>\<open>requests.get(url, params=...)\<close>: \<open>Inl msg\<close> when the request raises\<close>
  ollama_chat :: "json list \<Rightarrow> string + json"
    \<comment> \<open>the POST of \<open>call_model\<close> with \<open>raise_for_status\<close> and \<open>r.json()\<close>, given the
      messages: \<open>Inl msg\<close> when one of them raises\<close>
  local_today :: date \<comment> \<open>\<open>datetime.now().date()\<close>\<close>
  utc_now :: string \<comment> \<open>\<open>datetime.now(timezone.utc).isoformat()\<close>\<close>
  json_loads :: "string \<Rightarrow> json option" \<comment> \<open>\<open>json.loads\<close>: \<open>None\<close> when it raises\<close>
  json_dumps :: "json \<Rightarrow> string" \<comment> \<open>\<open>json.dumps(v)\<close>\<close>
  json_dumps_indent2 :: "json \<Rightarrow> string" \<comment> \<open>\<open>json.dumps(v, indent=2)\<close>\<close>
  py_repr :: "json \<Rightarrow> string" \<comment> \<open>\<open>str(v)\<close> of a value that is not a string\<close>

section \<open>Normalizers (utils/normalizers.py)\<close>

subsection \<open>The library's date parsers\<close>

fun two_digits :: "string \<Rightarrow> (nat \<times> string) option" where
  "two_digits (a # b # rest) =
     (if is_digit a \<and> is_digit b then Some (nat_of_digits [a, b], rest) else None)"
| "two_digits _ = None"

text \<open>\<open>HH[:MM[:SS[.fff[fff]]]]\<close>, the whole of the text.\<close>

definition parse_hh_mm_ss_ff :: "string \<Rightarrow> (nat \<times> nat \<times> nat) option" where
  "parse_hh_mm_ss_ff s =
     (case two_digits s of
        None \<Rightarrow> None
      | Some (h, r1) \<Rightarrow>
          (case r1 of
             [] \<Rightarrow> Some (h, 0, 0)
           | c1 # r1' \<Rightarrow>
               if c1 \<noteq> CHR '':'' then None
               else (case two_digits r1' of
                  None \<Rightarrow> None
                | Some (m, r2) \<Rightarrow>
                    (case r2 of
                       [] \<Rightarrow> Some (h, m, 0)
                     | c2 # r2' \<Rightarrow>
                         if c2 \<noteq> CHR '':'' then None
                         else (case two_digits r2' of
                            None \<Rightarrow> None
                          | Some (sec, r3) \<Rightarrow>
                              (case r3 of
                                 [] \<Rightarrow> Some (h, m, sec)
                               | c3 # f \<Rightarrow>
                                   if c3 = CHR ''.'' \<and> (length f = 3 \<or> length f = 6)
                                      \<and> list_all is_digit f
                                   then Some (h, m, sec) else None))))))"

text \<open>
  The time part of an ISO string: a time of day, then an optional UTC offset that starts
  at the first sign and is shorter than a day.
\<close>

definition iso_time_ok :: "string \<Rightarrow> bool" where
  "iso_time_ok t =
     (let is_sign = (\<lambda>c. c = CHR ''+'' \<or> c = CHR ''-'');
          tm = takeWhile (\<lambda>c. \<not> is_sign c) t;
          tz = drop 1 (dropWhile (\<lambda>c. \<not> is_sign c) t)
      in (case parse_hh_mm_ss_ff tm of
            None \<Rightarrow> False
          | Some (h, m, sec) \<Rightarrow> h < 24 \<and> m < 60 \<and> sec < 60)
         \<and> (length tm = length t
            \<or> (length tz \<in> {5, 8, 15}
               \<and> (case parse_hh_mm_ss_ff tz of
                     None \<Rightarrow> False
                   | Some (h, m, sec) \<Rightarrow> h * 3600 + m * 60 + sec < 86400))))"

definition invalid_isoformat :: "string \<Rightarrow> error" where
  "invalid_isoformat s = ValueError (''Invalid isoformat string: '' @ [CHR 0x27] @ s @ [CHR 0x27])"

text \<open>
  \<open>datetime.fromisoformat(s).date()\<close>, on the grammar the library documents for it:
  \<open>YYYY-MM-DD\<close>, alone or followed by one separator character and a time part. (Later
  versions of the library read further ISO 8601 spellings, all of them starting with
  four digits of a year.)
\<close>

definition fromisoformat :: "string \<Rightarrow> error + date" where
  "fromisoformat s =
     (if length s < 10 then Inl (invalid_isoformat s)
      else if list_all is_digit (take 4 s) \<and> s ! 4 = CHR ''-''
              \<and> list_all is_digit (take 2 (drop 5 s)) \<and> s ! 7 = CHR ''-''
              \<and> list_all is_digit (take 2 (drop 8 s))
              \<and> (length s = 10 \<or> iso_time_ok (drop 11 s))
      then make_date (nat_of_digits (take 4 s)) (nat_of_digits (take 2 (drop 5 s)))
             (nat_of_digits (take 2 (drop 8 s)))
      else Inl (invalid_isoformat s))"

text \<open>
  The regular expression \<open>^(\d{1,2})[-/](\d{1,2})[-/](\d{4})$\<close>: the three groups when the
  text matches. \<open>$\<close> also matches before one final line feed.
\<close>

definition match_dmy :: "string \<Rightarrow> (string \<times> string \<times> string) option" where
  "match_dmy s =
     (let is_sep = (\<lambda>c. c = CHR ''-'' \<or> c = CHR ''/'');
          dd = takeWhile is_digit s; r1 = dropWhile is_digit s
      in if length dd < 1 \<or> 2 < length dd then None
         else (case r1 of
            [] \<Rightarrow> None
          | c1 # r1' \<Rightarrow>
              if \<not> is_sep c1 then None
              else (let mm = takeWhile is_digit r1'; r2 = dropWhile is_digit r1'
                    in if length mm < 1 \<or> 2 < length mm then None
                       else (case r2 of
                          [] \<Rightarrow> None
                        | c2 # r2' \<Rightarrow>
                            if \<not> is_sep c2 then None
                            else if length (take 4 r2') = 4 \<and> list_all is_digit (take 4 r2')
                                    \<and> (drop 4 r2' = [] \<or> drop 4 r2' = [CHR 0x0A])
                            then Some (dd, mm, take 4 r2') else None))))"

text \<open>The directives of the four \<open>strptime\<close> formats; a format is three of them, separated
  by a space.\<close>

datatype directive = Pct_d | Pct_b | Pct_B | Pct_Y

definition month_abbrs :: "string list" where
  "month_abbrs = [''jan'', ''feb'', ''mar'', ''apr'', ''may'', ''jun'',
                  ''jul'', ''aug'', ''sep'', ''oct'', ''nov'', ''dec'']"

definition month_names :: "string list" where
  "month_names = [''january'', ''february'', ''march'', ''april'', ''may'', ''june'', ''july'',
                  ''august'', ''september'', ''october'', ''november'', ''december'']"

fun index_of :: "'a \<Rightarrow> 'a list \<Rightarrow> nat option" where
  "index_of x [] = None"
| "index_of x (y # ys) =
     (if x = y then Some 0 else (case index_of x ys of None \<Rightarrow> None | Some i \<Rightarrow> Some (Suc i)))"

text \<open>The pieces of a text between its runs of whitespace; \<open>cur\<close> is the piece being read,
  reversed.\<close>

fun split_ws :: "string \<Rightarrow> string \<Rightarrow> string list" where
  "split_ws cur [] = (if cur = [] then [] else [rev cur])"
| "split_ws cur (c # cs) =
     (if is_space c then (if cur = [] then split_ws [] cs else rev cur # split_ws [] cs)
      else split_ws (c # cur) cs)"

text \<open>One directive against one piece: the date with the field it sets.\<close>

fun parse_directive :: "directive \<Rightarrow> string \<Rightarrow> date \<Rightarrow> date option" where
  "parse_directive Pct_d t dt =
     (if t \<noteq> [] \<and> length t \<le> 2 \<and> list_all is_digit t
         \<and> 1 \<le> nat_of_digits t \<and> nat_of_digits t \<le> 31
      then Some (dt\<lparr>day := nat_of_digits t\<rparr>) else None)"
| "parse_directive Pct_b t dt =
     (case index_of (lower t) month_abbrs of None \<Rightarrow> None | Some i \<Rightarrow> Some (dt\<lparr>month := Suc i\<rparr>))"
| "parse_directive Pct_B t dt =
     (case index_of (lower t) month_names of None \<Rightarrow> None | Some i \<Rightarrow> Some (dt\<lparr>month := Suc i\<rparr>))"
| "parse_directive Pct_Y t dt =
     (if length t = 4 \<and> list_all is_digit t then Some (dt\<lparr>year := nat_of_digits t\<rparr>) else None)"

fun parse_directives :: "directive list \<Rightarrow> string list \<Rightarrow> date \<Rightarrow> date option" where
  "parse_directives [] [] dt = Some dt"
| "parse_directives (p # ps) (t # ts) dt =
     (case parse_directive p t dt of None \<Rightarrow> None | Some dt' \<Rightarrow> parse_directives ps ts dt')"
| "parse_directives _ _ dt = None"

text \<open>
  \<open>datetime.strptime(s, fmt).date()\<close> for such a format (English month names, any letter
  case): the text must be exactly the three fields, with whitespace between them and none
  around them, and the fields must make a calendar date.
\<close>

definition strptime :: "string \<Rightarrow> directive list \<Rightarrow> error + date" where
  "strptime s fmt =
     (if s \<noteq> [] \<and> (is_space (hd s) \<or> is_space (last s))
      then Inl (ValueError ''time data does not match format'')
      else (case parse_directives fmt (split_ws [] s) \<lparr>year = 1900, month = 1, day = 1\<rparr> of
              None \<Rightarrow> Inl (ValueError ''time data does not match format'')
            | Some dt \<Rightarrow> make_date (year dt) (month dt) (day dt)))"

subsection \<open>normalize_date\<close>

definition formats :: "directive list list" where
  "formats = [[Pct_d, Pct_b, Pct_Y], [Pct_d, Pct_B, Pct_Y],
              [Pct_b, Pct_d, Pct_Y], [Pct_B, Pct_d, Pct_Y]]"

text \<open>The loop over the text formats: the first that parses wins.\<close>

fun try_formats :: "directive list list \<Rightarrow> string \<Rightarrow> error + string" where
  "try_formats [] s = Inl (ValueError ''Invalid date format. Use YYYY-MM-DD or today/tomorrow.'')"
| "try_formats (fmt # fmts) s =
     (case strptime s fmt of Inr dt \<Rightarrow> Inr (isoformat dt) | Inl e \<Rightarrow> try_formats fmts s)"

definition normalize_date :: "env \<Rightarrow> json \<Rightarrow> error + string" where
  "normalize_date env date_str =
     (if \<not> truthy date_str then Inl (ValueError ''Date cannot be empty.'')
      else (case date_str of
         JStr raw \<Rightarrow>
           (let s = lower (strip raw)
            in if s = ''today'' then Inr (isoformat (local_today env))
               else if s = ''tomorrow'' then
                 (case add_one_day (local_today env) of
                    Inl e \<Rightarrow> Inl e | Inr dt \<Rightarrow> Inr (isoformat dt))
               else (case fromisoformat raw of
                  Inr dt \<Rightarrow> Inr (isoformat dt)
                | Inl e \<Rightarrow>
                    (case match_dmy s of
                       Some (dd, mm, yyyy) \<Rightarrow>
                         (case make_date (nat_of_digits yyyy) (nat_of_digits mm) (nat_of_digits dd) of
                            Inl e' \<Rightarrow> Inl e' | Inr dt \<Rightarrow> Inr (isoformat dt))
                     | None \<Rightarrow> try_formats formats (strip raw))))
       | _ \<Rightarrow> Inl AttributeError))" \<comment> \<open>\<open>date_str.strip()\<close> on a value that is not a string\<close>

subsection \<open>normalize_city\<close>

text \<open>
  \<open>re.sub(r"\bcity\b", "", s, flags=re.IGNORECASE)\<close>, scanning from the left; \<open>pw\<close> says
  whether the character before is a word character. After a match the scan goes on behind
  it, where the character before is the match's last letter.
\<close>

fun sub_city :: "bool \<Rightarrow> string \<Rightarrow> string" where
  "sub_city pw [] = []"
| "sub_city pw (c # cs) =
     (if \<not> pw \<and> lower (c # take 3 cs) = ''city''
         \<and> (case drop 3 cs of [] \<Rightarrow> True | d # _ \<Rightarrow> \<not> is_word d)
      then sub_city True (drop 3 cs)
      else c # sub_city (is_word c) cs)"

definition normalize_city :: "json \<Rightarrow> error + string" where
  "normalize_city city =
     (if \<not> truthy city then Inl (ValueError ''City cannot be empty.'')
      else (case city of
         JStr raw \<Rightarrow> Inr (title (strip (sub_city False (strip raw))))
       | _ \<Rightarrow> Inl AttributeError))"

subsection \<open>normalize_currency\<close>

definition normalize_currency :: "json \<Rightarrow> error + string" where
  "normalize_currency code =
     (if \<not> truthy code then Inl (ValueError ''Currency cannot be empty.'')
      else (case code of
         JStr raw \<Rightarrow> Inr (upper (strip raw))
       | _ \<Rightarrow> Inl AttributeError))"

section \<open>Python operations on JSON values\<close>

definition bind_e :: "error + 'a \<Rightarrow> ('a \<Rightarrow> error + 'b) \<Rightarrow> error + 'b" where
  "bind_e m f = (case m of Inl e \<Rightarrow> Inl e | Inr x \<Rightarrow> f x)"

text \<open>\<open>d.get(k, default)\<close>: only a dict has the method.\<close>

definition py_get :: "json \<Rightarrow> string \<Rightarrow> json \<Rightarrow> error + json" where
  "py_get d k dflt =
     (case d of
        JObj kvs \<Rightarrow> Inr (case map_of kvs k of Some v \<Rightarrow> v | None \<Rightarrow> dflt)
      | _ \<Rightarrow> Inl AttributeError)"

text \<open>\<open>d[k]\<close> with a string key.\<close>

definition py_getitem :: "json \<Rightarrow> string \<Rightarrow> error + json" where
  "py_getitem d k =
     (case d of
        JObj kvs \<Rightarrow> (case map_of kvs k of Some v \<Rightarrow> Inr v | None \<Rightarrow> Inl KeyError)
      | _ \<Rightarrow> Inl TypeError)"

text \<open>\<open>x[0]\<close>. The keys of a dict are strings, so \<open>0\<close> is never one of them.\<close>

definition py_getitem0 :: "json \<Rightarrow> error + json" where
  "py_getitem0 x =
     (case x of
        JArr xs \<Rightarrow> (case xs of [] \<Rightarrow> Inl IndexError | h # _ \<Rightarrow> Inr h)
      | JStr s \<Rightarrow> (case s of [] \<Rightarrow> Inl IndexError | c # _ \<Rightarrow> Inr (JStr [c]))
      | JObj kvs \<Rightarrow> Inl KeyError
      | _ \<Rightarrow> Inl TypeError)"

fun is_infix :: "string \<Rightarrow> string \<Rightarrow> bool" where
  "is_infix k [] = (k = [])"
| "is_infix k (c # cs) = (take (length k) (c # cs) = k \<or> is_infix k cs)"

text \<open>\<open>k in x\<close> for a string \<open>k\<close>: a key of a dict, an element of a list, a substring of a
  string; the other values are not containers.\<close>

definition py_contains :: "json \<Rightarrow> string \<Rightarrow> error + bool" where
  "py_contains x k =
     (case x of
        JObj kvs \<Rightarrow> Inr (k \<in> set (map fst kvs))
      | JArr xs \<Rightarrow> Inr (JStr k \<in> set xs)
      | JStr s \<Rightarrow> Inr (is_infix k s)
      | _ \<Rightarrow> Inl TypeError)"

text \<open>\<open>for e in x\<close>: the elements of a list, the characters of a string, the keys of a dict.\<close>

definition py_iter :: "json \<Rightarrow> error + json list" where
  "py_iter x =
     (case x of
        JArr xs \<Rightarrow> Inr xs
      | JStr s \<Rightarrow> Inr (map (\<lambda>c. JStr [c]) s)
      | JObj kvs \<Rightarrow> Inr (map (\<lambda>kv. JStr (fst kv)) kvs)
      | _ \<Rightarrow> Inl TypeError)"

text \<open>\<open>x[:n]\<close> for \<open>n \<ge> 0\<close>: lists and strings can be sliced.\<close>

definition py_slice_to :: "json \<Rightarrow> nat \<Rightarrow> error + json" where
  "py_slice_to x n =
     (case x of
        JArr xs \<Rightarrow> Inr (JArr (take n xs))
      | JStr s \<Rightarrow> Inr (JStr (take n s))
      | _ \<Rightarrow> Inl TypeError)"

text \<open>The number a value is in arithmetic: an int, a float, or a bool (0 or 1).\<close>

definition num_val :: "json \<Rightarrow> rat option" where
  "num_val x =
     (case x of
        JInt i \<Rightarrow> Some (of_int i)
      | JFloat r \<Rightarrow> Some r
      | JBool b \<Rightarrow> Some (if b then 1 else 0)
      | _ \<Rightarrow> None)"

text \<open>\<open>a / b\<close>, Python's true division: a float, and \<open>ZeroDivisionError\<close> on a zero divisor.\<close>

definition py_truediv :: "json \<Rightarrow> json \<Rightarrow> error + json" where
  "py_truediv a b =
     (case (num_val a, num_val b) of
        (Some x, Some y) \<Rightarrow> if y = 0 then Inl ZeroDivisionError else Inr (JFloat (x / y))
      | _ \<Rightarrow> Inl TypeError)"

text \<open>
  \<open>int(s)\<close> on a string: whitespace around it, an optional sign, decimal digits with single
  underscores between them.
\<close>

fun underscores_ok :: "string \<Rightarrow> bool" where
  "underscores_ok [] = False"
| "underscores_ok [c] = is_digit c"
| "underscores_ok (c # d # cs) =
     (if is_digit c then underscores_ok (d # cs)
      else c = CHR ''_'' \<and> is_digit d \<and> underscores_ok (d # cs))"

definition int_of_text :: "string \<Rightarrow> error + int" where
  "int_of_text raw =
     (let s = strip raw;
          neg = (s \<noteq> [] \<and> hd s = CHR ''-'');
          body = (if s \<noteq> [] \<and> (hd s = CHR ''-'' \<or> hd s = CHR ''+'') then tl s else s)
      in if body \<noteq> [] \<and> is_digit (hd body) \<and> underscores_ok body
         then Inr ((if neg then - 1 else 1) * int (nat_of_digits (filter is_digit body)))
         else Inl (ValueError (''invalid literal for int() with base 10: '' @ [CHR 0x27] @ raw @ [CHR 0x27])))"

text \<open>\<open>int(x)\<close>: a float is truncated towards zero.\<close>

definition py_int :: "json \<Rightarrow> error + int" where
  "py_int x =
     (case x of
        JInt i \<Rightarrow> Inr i
      | JBool b \<Rightarrow> Inr (if b then 1 else 0)
      | JFloat r \<Rightarrow> Inr (if 0 \<le> r then \<lfloor>r\<rfloor> else \<lceil>r\<rceil>)
      | JStr s \<Rightarrow> int_of_text s
      | _ \<Rightarrow> Inl TypeError)"

text \<open>\<open>str(x)\<close>: a string is itself, another value is rendered by the library.\<close>

definition py_str :: "env \<Rightarrow> json \<Rightarrow> string" where
  "py_str env x = (case x of JStr s \<Rightarrow> s | _ \<Rightarrow> py_repr env x)"

text \<open>\<open>str(e)\<close> of a caught exception: the message it carries.\<close>

fun str_of_error :: "error \<Rightarrow> string" where
  "str_of_error (ValueError m) = m"
| "str_of_error (RequestException m) = m"
| "str_of_error (JSONDecodeError m) = m"
| "str_of_error _ = []"

section \<open>The world a turn changes\<close>

text \<open>
  The rows of the table \<open>function_calls\<close>, the requests sent to the data providers and the
  conversations sent to the model backend, each in the order they happened. The two JSON
  columns of a row are kept as values (the source stores their \<open>json.dumps\<close>).
\<close>

record audit_record =
  ts_utc :: string
  function_name :: string
  arguments_json :: json
  result_json :: json

record world =
  audit_log :: "audit_record list"
  http_log :: "(string \<times> (string \<times> json) list) list"
  model_log :: "json list list"

text \<open>A computation that may raise and may change the world; what it changed before it
  raised stays changed.\<close>

type_synonym 'a io = "world \<Rightarrow> (error + 'a) \<times> world"

definition ret :: "'a \<Rightarrow> 'a io" where
  "ret x w = (Inr x, w)"

definition raise :: "error \<Rightarrow> 'a io" where
  "raise e w = (Inl e, w)"

definition lift :: "error + 'a \<Rightarrow> 'a io" where
  "lift r w = (r, w)"

definition bind_io :: "'a io \<Rightarrow> ('a \<Rightarrow> 'b io) \<Rightarrow> 'b io" where
  "bind_io m f w = (case m w of (Inl e, w') \<Rightarrow> (Inl e, w') | (Inr x, w') \<Rightarrow> f x w')"

text \<open>\<open>try: m except Exception as e: h(e)\<close>\<close>

definition catch_io :: "'a io \<Rightarrow> (error \<Rightarrow> 'a io) \<Rightarrow> 'a io" where
  "catch_io m h w = (case m w of (Inl e, w') \<Rightarrow> h e w' | (Inr x, w') \<Rightarrow> (Inr x, w'))"

section \<open>Tools (functions.py)\<close>

subsection \<open>The audit log\<close>

text \<open>\<open>init_db\<close> creates the table when it is missing; it adds no row.\<close>

definition init_db :: "unit io" where
  "init_db w = (Inr (), w)"

definition log_call :: "env \<Rightarrow> string \<Rightarrow> json \<Rightarrow> json \<Rightarrow> unit io" where
  "log_call env fname arguments result w =
     (Inr (), w\<lparr>audit_log := audit_log w @
        [\<lparr>ts_utc = utc_now env, function_name = fname,
          arguments_json = arguments, result_json = result\<rparr>]\<rparr>)"

text \<open>The pair of lines that ends most paths of a tool:
  \<open>log_call(name, arguments, result); return result\<close>.\<close>

definition log_and_return :: "env \<Rightarrow> string \<Rightarrow> json \<Rightarrow> json \<Rightarrow> json io" where
  "log_and_return env fname arguments result =
     bind_io (log_call env fname arguments result) (\<lambda>_. ret result)"

subsection \<open>HTTP\<close>

definition requests_get :: "env \<Rightarrow> string \<Rightarrow> (string \<times> json) list \<Rightarrow> http_response io" where
  "requests_get env url params w =
     ((case http_get env url params of Inl m \<Rightarrow> Inl (RequestException m) | Inr r \<Rightarrow> Inr r),
      w\<lparr>http_log := http_log w @ [(url, params)]\<rparr>)"

definition response_json :: "http_response \<Rightarrow> error + json" where
  "response_json r = (case json_body r of Inl m \<Rightarrow> Inl (JSONDecodeError m) | Inr v \<Rightarrow> Inr v)"

text \<open>An API key as \<open>if not api_key\<close> sees it: unset and empty are the same.\<close>

definition usable_key :: "string option \<Rightarrow> string option" where
  "usable_key k = (case k of None \<Rightarrow> None | Some s \<Rightarrow> if s = [] then None else Some s)"

subsection \<open>Utilities\<close>

fun safe_get :: "json \<Rightarrow> string list \<Rightarrow> error + json" where
  "safe_get d [] = Inr d"
| "safe_get d (k # ks) =
     (if d = JNull then Inr JNull
      else bind_e (py_get d k JNull) (\<lambda>d'. safe_get d' ks))"

text \<open>\<open>x or y\<close>\<close>

definition py_or :: "json \<Rightarrow> json \<Rightarrow> json" where
  "py_or x y = (if truthy x then x else y)"

subsection \<open>Weather for a particular date\<close>

definition geo_url :: string where
  "geo_url = ''http://api.openweathermap.org/geo/1.0/direct''"

definition weather_url :: string where
  "weather_url = ''https://api.openweathermap.org/data/2.5/weather''"

definition forecast_url :: string where
  "forecast_url = ''https://api.openweathermap.org/data/2.5/forecast''"

definition geocode_city :: "env \<Rightarrow> string \<Rightarrow> json option io" where
  "geocode_city env city =
     (case usable_key (openweather_api_key env) of
        None \<Rightarrow> ret None
      | Some api_key \<Rightarrow>
          bind_io (requests_get env geo_url
                     [(''q'', JStr city), (''limit'', JInt 1), (''appid'', JStr api_key)])
            (\<lambda>r. if status_code r \<noteq> 200 then ret None
                 else bind_io (lift (response_json r))
                   (\<lambda>arr. if \<not> truthy arr then ret None
                      else lift (bind_e (py_getitem0 arr) (\<lambda>a0.
                             bind_e (py_getitem a0 ''lat'') (\<lambda>lat.
                             bind_e (py_getitem a0 ''lon'') (\<lambda>lon.
                             bind_e (py_get a0 ''name'' JNull) (\<lambda>name.
                             bind_e (py_get a0 ''country'' JNull) (\<lambda>country.
                               Inr (Some (JObj [(''lat'', lat), (''lon'', lon),
                                                (''name'', name), (''country'', country)])))))))))))"

text \<open>
  \<open>datetime.fromtimestamp(ts, tz=timezone.utc).date()\<close>: the day the second \<open>ts\<close> of the
  epoch falls on, from the count of days since 1970-01-01.
\<close>

definition date_of_epoch_days :: "int \<Rightarrow> error + date" where
  "date_of_epoch_days n =
     (let z = n + 719468;
          era = z div 146097;
          doe = z mod 146097;
          yoe = (doe - doe div 1460 + doe div 36524 - doe div 146096) div 365;
          doy = doe - (365 * yoe + yoe div 4 - yoe div 100);
          mp = (5 * doy + 2) div 153;
          d = doy - (153 * mp + 2) div 5 + 1;
          m = (if mp < 10 then mp + 3 else mp - 9);
          y = yoe + era * 400 + (if m \<le> 2 then 1 else 0)
      in if y < 1 \<or> 9999 < y then Inl (ValueError ''year is out of range'')
         else Inr \<lparr>year = nat y, month = nat m, day = nat d\<rparr>)"

definition utc_date_of_timestamp :: "json \<Rightarrow> error + date" where
  "utc_date_of_timestamp ts =
     (case num_val ts of
        None \<Rightarrow> Inl TypeError
      | Some r \<Rightarrow> date_of_epoch_days \<lfloor>r / 86400\<rfloor>)"

text \<open>\<open>grouped.setdefault(key, []).append(e)\<close>\<close>

fun append_group :: "string \<Rightarrow> json \<Rightarrow> (string \<times> json list) list \<Rightarrow> (string \<times> json list) list" where
  "append_group key e [] = [(key, [e])]"
| "append_group key e ((k, es) # rest) =
     (if k = key then (k, es @ [e]) # rest else (k, es) # append_group key e rest)"

text \<open>The loop that groups the forecast entries by their UTC date.\<close>

fun group_entries :: "json list \<Rightarrow> (string \<times> json list) list \<Rightarrow> error + (string \<times> json list) list" where
  "group_entries [] grouped = Inr grouped"
| "group_entries (e # es) grouped =
     bind_e (py_get e ''dt'' JNull) (\<lambda>ts.
       if ts = JNull then group_entries es grouped
       else bind_e (utc_date_of_timestamp ts) (\<lambda>dts.
              group_entries es (append_group (isoformat dts) e grouped)))"

text \<open>\<open>[_safe_get(e, *path) for e in entries if _safe_get(e, *path) is not None]\<close>\<close>

fun collect_present :: "string list \<Rightarrow> json list \<Rightarrow> error + json list" where
  "collect_present path [] = Inr []"
| "collect_present path (e # es) =
     bind_e (safe_get e path) (\<lambda>v.
     bind_e (collect_present path es) (\<lambda>vs.
       Inr (if v = JNull then vs else v # vs)))"

text \<open>\<open>(_safe_get((e.get("weather") or [{}])[0], "description") or "").lower()\<close>\<close>

definition description_of :: "json \<Rightarrow> error + string" where
  "description_of e =
     bind_e (py_get e ''weather'' JNull) (\<lambda>w.
     bind_e (py_getitem0 (py_or w (JArr [JObj []]))) (\<lambda>w0.
     bind_e (safe_get w0 [''description'']) (\<lambda>d.
       (case py_or d (JStr []) of JStr s \<Rightarrow> Inr (lower s) | _ \<Rightarrow> Inl AttributeError))))"

fun descriptions :: "json list \<Rightarrow> error + string list" where
  "descriptions [] = Inr []"
| "descriptions (e # es) =
     bind_e (description_of e) (\<lambda>d. bind_e (descriptions es) (\<lambda>ds. Inr (d # ds)))"

text \<open>\<open>Counter(xs).most_common(1)\<close>: the most frequent element, the earliest of them on a
  tie; \<open>None\<close> for no element.\<close>

definition most_common1 :: "string list \<Rightarrow> string option" where
  "most_common1 xs =
     (case xs of
        [] \<Rightarrow> None
      | x # rest \<Rightarrow>
          Some (foldl (\<lambda>best y. if count_list xs best < count_list xs y then y else best) x rest))"

text \<open>
  The statistics of the forecast. On numbers \<open>min\<close> and \<open>max\<close> keep the earliest extreme
  element and the average is a float; when a value is not a number, \<open>min\<close>, \<open>max\<close> or the
  \<open>sum\<close> that follows them raises \<open>TypeError\<close>, so the dict they belong to is never built.
\<close>

definition num_of :: "json \<Rightarrow> rat" where
  "num_of x = (case num_val x of Some r \<Rightarrow> r | None \<Rightarrow> 0)"

definition all_numbers :: "json list \<Rightarrow> bool" where
  "all_numbers xs = list_all (\<lambda>x. num_val x \<noteq> None) xs"

definition min_or_none :: "json list \<Rightarrow> error + json" where
  "min_or_none xs =
     (case xs of
        [] \<Rightarrow> Inr JNull
      | x # rest \<Rightarrow>
          if all_numbers xs
          then Inr (foldl (\<lambda>best y. if num_of y < num_of best then y else best) x rest)
          else Inl TypeError)"

definition max_or_none :: "json list \<Rightarrow> error + json" where
  "max_or_none xs =
     (case xs of
        [] \<Rightarrow> Inr JNull
      | x # rest \<Rightarrow>
          if all_numbers xs
          then Inr (foldl (\<lambda>best y. if num_of best < num_of y then y else best) x rest)
          else Inl TypeError)"

definition avg_or_none :: "json list \<Rightarrow> error + json" where
  "avg_or_none xs =
     (if xs = [] then Inr JNull
      else if all_numbers xs
      then Inr (JFloat (sum_list (map num_of xs) / of_nat (length xs)))
      else Inl TypeError)"

definition error_result :: "json \<Rightarrow> json" where
  "error_result reason = JObj [(''error'', reason)]"

text \<open>The result of the branch for today's weather, from the provider's body \<open>d\<close>.\<close>

definition current_result :: "string \<Rightarrow> json \<Rightarrow> json \<Rightarrow> error + json" where
  "current_result date geo d =
     bind_e (py_get geo ''name'' JNull) (\<lambda>name.
     bind_e (py_get geo ''country'' JNull) (\<lambda>country.
     bind_e (safe_get d [''main'', ''temp'']) (\<lambda>temp.
     bind_e (safe_get d [''main'', ''feels_like'']) (\<lambda>feels.
     bind_e (safe_get d [''main'', ''humidity'']) (\<lambda>humidity.
     bind_e (safe_get d [''weather'']) (\<lambda>w.
     bind_e (py_getitem0 (py_or w (JArr [JObj []]))) (\<lambda>w0.
     bind_e (safe_get w0 [''description'']) (\<lambda>condition.
     bind_e (safe_get d [''wind'', ''speed'']) (\<lambda>wind.
       Inr (JObj [(''date'', JStr date), (''city'', name), (''country'', country),
                  (''type'', JStr ''current''), (''temperature_c'', temp),
                  (''feels_like_c'', feels), (''humidity'', humidity),
                  (''condition'', condition), (''wind_mps'', wind)]))))))))))"

definition forecast_note :: string where
  "forecast_note = ''Forecast derived from OpenWeatherMap 5-day/3-hour forecasts. For exact historical data use a paid historical API.''"

text \<open>The result of the forecast branch, from the entries of the requested day.\<close>

definition forecast_result :: "string \<Rightarrow> json \<Rightarrow> json list \<Rightarrow> error + json" where
  "forecast_result date geo day_entries =
     bind_e (collect_present [''main'', ''temp''] day_entries) (\<lambda>temps.
     bind_e (collect_present [''main'', ''feels_like''] day_entries) (\<lambda>feels.
     bind_e (collect_present [''main'', ''humidity''] day_entries) (\<lambda>humid.
     bind_e (descriptions day_entries) (\<lambda>descs.
     bind_e (py_get geo ''name'' JNull) (\<lambda>name.
     bind_e (py_get geo ''country'' JNull) (\<lambda>country.
     bind_e (min_or_none temps) (\<lambda>temp_min.
     bind_e (max_or_none temps) (\<lambda>temp_max.
     bind_e (avg_or_none temps) (\<lambda>temp_avg.
     bind_e (avg_or_none feels) (\<lambda>feels_avg.
     bind_e (avg_or_none humid) (\<lambda>humid_avg.
       Inr (JObj [(''date'', JStr date), (''city'', name), (''country'', country),
                  (''type'', JStr ''forecast''), (''temp_min_c'', temp_min),
                  (''temp_max_c'', temp_max), (''temp_avg_c'', temp_avg),
                  (''feels_like_avg_c'', feels_avg), (''humidity_avg'', humid_avg),
                  (''condition'',
                     (case most_common1 (filter (\<lambda>d. d \<noteq> []) descs) of
                        None \<Rightarrow> JNull | Some c \<Rightarrow> JStr c)),
                  (''note'', JStr forecast_note)]))))))))))))"

definition get_weather_for_date :: "env \<Rightarrow> json \<Rightarrow> json \<Rightarrow> json io" where
  "get_weather_for_date env city0 date0 =
     bind_io (lift (normalize_city city0)) (\<lambda>city.
     bind_io (lift (normalize_date env date0)) (\<lambda>date.
     bind_io init_db (\<lambda>_.
       (let logged = JObj [(''city'', JStr city), (''date'', JStr date)];
            finish = log_and_return env ''get_weather_for_date'' logged
        in case usable_key (openweather_api_key env) of
             None \<Rightarrow> finish (error_result (JStr ''Missing OPENWEATHER_API_KEY in environment''))
           | Some api_key \<Rightarrow>
              (case fromisoformat date of
                 Inl e \<Rightarrow>
                   finish (error_result (JStr (''Invalid date format. Use YYYY-MM-DD. (''
                                               @ str_of_error e @ '')'')))
               | Inr target \<Rightarrow>
                   bind_io (geocode_city env city) (\<lambda>geo_opt.
                     case geo_opt of
                       None \<Rightarrow>
                         finish (error_result (JStr (''Could not geocode city '' @ [CHR 0x27] @ city
                                   @ [CHR 0x27] @ '' (check spelling) or missing API key.'')))
                     | Some geo \<Rightarrow>
                         bind_io (lift (py_getitem geo ''lat'')) (\<lambda>lat.
                         bind_io (lift (py_getitem geo ''lon'')) (\<lambda>lon.
                           (let params = [(''lat'', lat), (''lon'', lon),
                                          (''appid'', JStr api_key), (''units'', JStr ''metric'')]
                            in if target = local_today env then
                                 bind_io (requests_get env weather_url params) (\<lambda>r.
                                   if status_code r \<noteq> 200 then
                                     bind_io (lift (response_json r)) (\<lambda>body.
                                       finish (error_result body))
                                   else
                                     bind_io (lift (response_json r)) (\<lambda>d.
                                     bind_io (lift (current_result date geo d)) finish))
                               else
                                 bind_io (requests_get env forecast_url params) (\<lambda>r.
                                   if status_code r \<noteq> 200 then
                                     bind_io (lift (response_json r)) (\<lambda>body.
                                       finish (error_result body))
                                   else
                                     bind_io (lift (response_json r)) (\<lambda>data.
                                     bind_io (lift (py_get data ''list'' (JArr []))) (\<lambda>entries.
                                     bind_io (lift (py_iter entries)) (\<lambda>es.
                                     bind_io (lift (group_entries es [])) (\<lambda>grouped.
                                       case map_of grouped (isoformat target) of
                                         None \<Rightarrow>
                                           finish (error_result (JStr
                                             ''Requested date is outside the available forecast window (OpenWeatherMap 5-day forecast).''))
                                       | Some day_entries \<Rightarrow>
                                           bind_io (lift (forecast_result date geo day_entries))
                                             finish))))))))))))))"

subsection \<open>News for a particular city\<close>

definition news_url :: string where
  "news_url = ''https://newsapi.org/v2/everything''"

text \<open>One pass of the loop over the articles: the five fields kept of an article.\<close>

definition article_of :: "json \<Rightarrow> error + json" where
  "article_of a =
     bind_e (py_get a ''title'' JNull) (\<lambda>title.
     bind_e (py_get a ''source'' JNull) (\<lambda>source.
     bind_e (py_get (py_or source (JObj [])) ''name'' JNull) (\<lambda>source_name.
     bind_e (py_get a ''publishedAt'' JNull) (\<lambda>published.
     bind_e (py_get a ''url'' JNull) (\<lambda>url.
     bind_e (py_get a ''description'' JNull) (\<lambda>description.
       Inr (JObj [(''title'', title), (''source'', source_name), (''publishedAt'', published),
                  (''url'', url), (''description'', description)])))))))"

fun collect_articles :: "json list \<Rightarrow> error + json list" where
  "collect_articles [] = Inr []"
| "collect_articles (a # as) =
     bind_e (article_of a) (\<lambda>x. bind_e (collect_articles as) (\<lambda>xs. Inr (x # xs)))"

definition get_news_for_city :: "env \<Rightarrow> json \<Rightarrow> json \<Rightarrow> json io" where
  "get_news_for_city env city0 page_size =
     bind_io (lift (normalize_city city0)) (\<lambda>city.
     bind_io init_db (\<lambda>_.
       (let logged = JObj [(''city'', JStr city), (''page_size'', page_size)];
            finish = log_and_return env ''get_news_for_city'' logged
        in case usable_key (newsapi_key env) of
             None \<Rightarrow> finish (error_result (JStr ''Missing NEWSAPI_KEY in environment''))
           | Some api_key \<Rightarrow>
               bind_io (lift (py_int page_size)) (\<lambda>n.
                 (let pageSize = max 1 (min n 20);
                      params = [(''q'', JStr city), (''pageSize'', JInt pageSize),
                                (''sortBy'', JStr ''publishedAt''), (''language'', JStr ''en''),
                                (''apiKey'', JStr api_key)]
                  in bind_io (requests_get env news_url params) (\<lambda>r.
                       if status_code r \<noteq> 200 then
                         bind_io (lift (response_json r)) (\<lambda>body. finish (error_result body))
                       else
                         bind_io (lift (response_json r)) (\<lambda>data.
                         bind_io (lift (py_get data ''articles'' (JArr []))) (\<lambda>listed.
                         bind_io (lift (py_slice_to listed (nat pageSize))) (\<lambda>sliced.
                         bind_io (lift (py_iter sliced)) (\<lambda>items.
                         bind_io (lift (collect_articles items)) (\<lambda>articles.
                           finish (JObj [(''city'', JStr city),
                                         (''count'', JInt (int (length articles))),
                                         (''articles'', JArr articles)]))))))))))))"

subsection \<open>Currency conversion\<close>

definition currency_url :: string where
  "currency_url = ''https://api.frankfurter.app/latest''"

definition convert_currency :: "env \<Rightarrow> json \<Rightarrow> json \<Rightarrow> json \<Rightarrow> json io" where
  "convert_currency env amount base0 target0 =
     bind_io (lift (normalize_currency base0)) (\<lambda>base.
     bind_io (lift (normalize_currency target0)) (\<lambda>target.
       (let params = [(''amount'', amount), (''from'', JStr (upper base)), (''to'', JStr (upper target))]
        in bind_io
             (catch_io
                (bind_io (requests_get env currency_url params) (\<lambda>r.
                 bind_io (lift (response_json r)) (\<lambda>data. ret (Inr (r, data)))))
                (\<lambda>e. ret (Inl (error_result (JStr (''Currency request failed: '' @ str_of_error e))))))
             (\<lambda>got.
                case got of
                  Inl failed \<Rightarrow> ret failed
                | Inr (r, data) \<Rightarrow>
                    if status_code r \<noteq> 200 then ret (error_result data)
                    else
                      bind_io (lift (py_getitem data ''rates'')) (\<lambda>rates.
                      bind_io (lift (py_getitem rates (upper target))) (\<lambda>converted.
                      bind_io (lift (if truthy amount then py_truediv converted amount
                                     else Inr JNull)) (\<lambda>rate.
                        ret (JObj [(''amount'', amount), (''base'', JStr (upper base)),
                                   (''target'', JStr (upper target)), (''converted'', converted),
                                   (''rate'', rate)]))))))))"

subsection \<open>Registry for the model\<close>

datatype tool = Get_weather_for_date | Get_news_for_city | Convert_currency

record tool_spec =
  callable :: tool
  description :: string
  properties :: "(string \<times> json) list"
  required :: "string list"

definition FUNCTION_REGISTRY :: "(string \<times> tool_spec) list" where
  "FUNCTION_REGISTRY =
     [(''get_weather_for_date'',
        \<lparr>callable = Get_weather_for_date,
         description = ''Get weather for a city on a particular date (YYYY-MM-DD). Uses OpenWeatherMap current/forecast endpoints.'',
         properties = [(''city'', JObj [(''type'', JStr ''string'')]),
                       (''date'', JObj [(''type'', JStr ''string''),
                                        (''description'', JStr ''YYYY-MM-DD'')])],
         required = [''city'', ''date'']\<rparr>),
      (''get_news_for_city'',
        \<lparr>callable = Get_news_for_city,
         description = ''Get recent news articles mentioning a city'',
         properties = [(''city'', JObj [(''type'', JStr ''string'')]),
                       (''page_size'', JObj [(''type'', JStr ''integer''),
                                             (''minimum'', JInt 1), (''maximum'', JInt 20)])],
         required = [''city'']\<rparr>),
      (''convert_currency'',
        \<lparr>callable = Convert_currency,
         description = ''Convert amount from base currency to target currency using exchangerate.host'',
         properties = [(''amount'', JObj [(''type'', JStr ''number'')]),
                       (''base'', JObj [(''type'', JStr ''string'')]),
                       (''target'', JObj [(''type'', JStr ''string'')])],
         required = [''amount'', ''base'', ''target'']\<rparr>)]"

text \<open>The value of the key \<open>"parameters"\<close> of a registry entry.\<close>

definition parameters :: "tool_spec \<Rightarrow> json" where
  "parameters meta =
     JObj [(''type'', JStr ''object''), (''properties'', JObj (properties meta)),
           (''required'', JArr (map JStr (required meta)))]"

definition get_model_functions :: "json list" where
  "get_model_functions =
     map (\<lambda>(name, meta). JObj [(''name'', JStr name), (''description'', JStr (description meta)),
                               (''parameters'', parameters meta)])
       FUNCTION_REGISTRY"

subsection \<open>The dispatcher\<close>

text \<open>The parameters of the three tools, as their \<open>def\<close> lines declare them.\<close>

fun parameter_names :: "tool \<Rightarrow> string list" where
  "parameter_names Get_weather_for_date = [''city'', ''date'']"
| "parameter_names Get_news_for_city = [''city'', ''page_size'']"
| "parameter_names Convert_currency = [''amount'', ''base'', ''target'']"

text \<open>A keyword argument whose name is no parameter of the tool.\<close>

definition unexpected_keyword :: "tool \<Rightarrow> (string \<times> json) list \<Rightarrow> bool" where
  "unexpected_keyword fn kwargs =
     (\<not> list_all (\<lambda>k. k \<in> set (parameter_names fn)) (map fst kwargs))"

text \<open>
  \<open>fn(**kwargs)\<close>: the keyword arguments are bound to the parameters of the tool. A keyword
  that is no parameter is a \<open>TypeError\<close>, and so is a parameter without a default that
  gets no argument; in both cases the body of the tool does not run.
\<close>

fun call_tool :: "env \<Rightarrow> tool \<Rightarrow> (string \<times> json) list \<Rightarrow> json io" where
  "call_tool env Get_weather_for_date kwargs =
     (if unexpected_keyword Get_weather_for_date kwargs then raise TypeError
      else (case (map_of kwargs ''city'', map_of kwargs ''date'') of
              (Some city, Some date) \<Rightarrow> get_weather_for_date env city date
            | _ \<Rightarrow> raise TypeError))"
| "call_tool env Get_news_for_city kwargs =
     (if unexpected_keyword Get_news_for_city kwargs then raise TypeError
      else (case map_of kwargs ''city'' of
              Some city \<Rightarrow>
                get_news_for_city env city
                  (case map_of kwargs ''page_size'' of Some n \<Rightarrow> n | None \<Rightarrow> JInt 5)
            | None \<Rightarrow> raise TypeError))"
| "call_tool env Convert_currency kwargs =
     (if unexpected_keyword Convert_currency kwargs then raise TypeError
      else (case (map_of kwargs ''amount'', map_of kwargs ''base'', map_of kwargs ''target'') of
              (Some amount, Some base, Some target) \<Rightarrow> convert_currency env amount base target
            | _ \<Rightarrow> raise TypeError))"

text \<open>The sanitization loop: for each key of the schema, in its order, the argument of that
  name when there is one.\<close>

fun clean_args :: "string list \<Rightarrow> json \<Rightarrow> error + (string \<times> json) list" where
  "clean_args [] arguments = Inr []"
| "clean_args (k # ks) arguments =
     bind_e (py_contains arguments k) (\<lambda>present.
       if present then
         bind_e (py_getitem arguments k) (\<lambda>v.
         bind_e (clean_args ks arguments) (\<lambda>rest. Inr ((k, v) # rest)))
       else clean_args ks arguments)"

text \<open>\<open>name not in FUNCTION_REGISTRY\<close>: a list or a dict cannot be hashed; a value that is
  not a string is no key of the registry.\<close>

definition registry_lookup :: "json \<Rightarrow> error + tool_spec option" where
  "registry_lookup name =
     (case name of
        JStr s \<Rightarrow> Inr (map_of FUNCTION_REGISTRY s)
      | JArr xs \<Rightarrow> Inl TypeError
      | JObj kvs \<Rightarrow> Inl TypeError
      | _ \<Rightarrow> Inr None)"

definition call_function_by_name :: "env \<Rightarrow> json \<Rightarrow> json \<Rightarrow> json io" where
  "call_function_by_name env name arguments =
     bind_io (lift (registry_lookup name)) (\<lambda>found.
       case found of
         None \<Rightarrow> raise (ValueError (''Unknown function: '' @ py_str env name))
       | Some meta \<Rightarrow>
           bind_io (lift (clean_args (map fst (properties meta)) arguments)) (\<lambda>cleaned_args.
             call_tool env (callable meta) cleaned_args))"

section \<open>Model gateway (llm_client.py)\<close>

definition dq :: string where
  "dq = [CHR 0x22]"

definition nl :: string where
  "nl = [CHR 0x0A]"

text \<open>The system message that replaces the first message when tools are advertised;
  \<open>tool_text\<close> is \<open>json.dumps(functions, indent=2)\<close>.\<close>

definition strict_system_message :: "string \<Rightarrow> json" where
  "strict_system_message tool_text =
     JObj [(''role'', JStr ''system''),
           (''content'', JStr (concat
              [''You are a STRICT tool-calling assistant.'', nl, nl,
               ''RULES (VERY IMPORTANT):'', nl,
               ''1) If the user asks for weather, you MUST call get_weather_for_date.'', nl,
               ''2) If the user asks for news, you MUST call get_news_for_city.'', nl,
               ''3) If the user asks for currency conversion, you MUST call convert_currency.'', nl,
               ''4) NEVER say '', [CHR 0x27], ''you can use tool X'', [CHR 0x27], ''.'', nl,
               ''5) You must output ONLY valid JSON. No extra text.'', nl, nl,
               ''OUTPUT FORMAT:'', nl,
               ''To call a tool:'', nl,
               ''{'', dq, ''tool'', dq, '':'', dq, ''TOOL_NAME'', dq, '','', dq, ''arguments'', dq,
                 '':{...}}'', nl, nl,
               ''If no tool is needed:'', nl,
               ''{'', dq, ''tool'', dq, '':null,'', dq, ''final'', dq, '':'', dq, ''...'', dq, ''}'',
                 nl, nl,
               ''IMPORTANT DATE RULE:'', nl,
               ''- If user says '', [CHR 0x27], ''today'', [CHR 0x27], '', set date to '',
                 dq, ''today'', dq, ''.'', nl,
               ''- If user says '', [CHR 0x27], ''tomorrow'', [CHR 0x27], '', set date to '',
                 dq, ''tomorrow'', dq, ''.'', nl,
               ''- Otherwise if user gives a date, keep it as YYYY-MM-DD.'', nl, nl,
               ''Available tools:'', nl,
               tool_text, nl]))]"

text \<open>
  \<open>call_model(messages, functions)\<close>; \<open>functions\<close> is \<open>None\<close> when the caller leaves it out.
  The conversation that is sent is recorded.
\<close>

definition call_model :: "env \<Rightarrow> json list \<Rightarrow> json list option \<Rightarrow> json io" where
  "call_model env messages functions w =
     (let sent = (case functions of
                    None \<Rightarrow> messages
                  | Some fs \<Rightarrow>
                      if fs \<noteq> []
                      then strict_system_message (json_dumps_indent2 env (JArr fs)) # drop 1 messages
                      else messages)
      in ((case ollama_chat env sent of Inl m \<Rightarrow> Inl (RequestException m) | Inr v \<Rightarrow> Inr v),
          w\<lparr>model_log := model_log w @ [sent]\<rparr>))"

text \<open>\<open>response["message"]["content"]\<close>\<close>

definition message_content :: "json \<Rightarrow> error + json" where
  "message_content response = bind_e (py_getitem response ''message'') (\<lambda>m. py_getitem m ''content'')"

text \<open>
  \<open>extract_function_call(response)\<close>; the \<open>None\<close> it returns is \<open>JNull\<close>. Only
  \<open>json.loads\<close> is inside the \<open>try\<close>: it raises on a text that is not JSON and on a content
  that is not text.
\<close>

definition extract_function_call :: "env \<Rightarrow> json \<Rightarrow> error + json" where
  "extract_function_call env response =
     bind_e (message_content response) (\<lambda>content.
       case (case content of JStr s \<Rightarrow> json_loads env s | _ \<Rightarrow> None) of
         None \<Rightarrow> Inr JNull
       | Some parsed \<Rightarrow>
           bind_e (py_get parsed ''tool'' JNull) (\<lambda>tool.
             if truthy tool then
               bind_e (py_get parsed ''arguments'' (JObj [])) (\<lambda>arguments.
                 Inr (JObj [(''name'', tool), (''arguments'', arguments)]))
             else Inr JNull))"

section \<open>Conversation controller (main.py)\<close>

definition initial_system_message :: json where
  "initial_system_message =
     JObj [(''role'', JStr ''system''),
           (''content'', JStr (concat
              [''You are an assistant that can call tools to fetch data. '',
               ''Available tools: get_weather_for_date(city, date), '',
               ''get_news_for_city(city, page_size), convert_currency(amount, base, target). '',
               ''If the user asks for weather, news or currency conversion, call the correct tool.'']))]"

text \<open>The system message appended after the tool's output, whatever the tool.\<close>

definition final_instruction :: json where
  "final_instruction =
     JObj [(''role'', JStr ''system''),
           (''content'', JStr (concat
              [''Now write a final user-friendly answer. '',
               ''Do NOT call any tool. Do NOT return JSON. '',
               ''Summarize the news in bullet points with title + source.'']))]"

text \<open>
  \<open>chat_endpoint(payload)\<close> for \<open>payload.message = message\<close>. An exception that leaves the
  function is the result \<open>Inl\<close>: the \<open>HTTPException\<close> with status 500 that the handler
  raises for a failed tool call, or an exception nothing caught.
\<close>

definition chat_endpoint :: "env \<Rightarrow> string \<Rightarrow> json io" where
  "chat_endpoint env message =
     (let messages = [initial_system_message,
                      JObj [(''role'', JStr ''user''), (''content'', JStr message)]];
          model_functions = get_model_functions
      in bind_io (call_model env messages (Some model_functions)) (\<lambda>resp.
         bind_io (lift (extract_function_call env resp)) (\<lambda>fc.
           if truthy fc then
             bind_io
               (catch_io
                  (bind_io (lift (py_getitem fc ''name'')) (\<lambda>name.
                   bind_io (lift (py_getitem fc ''arguments'')) (\<lambda>arguments.
                     call_function_by_name env name arguments)))
                  (\<lambda>e. raise (HTTPException 500 e)))
               (\<lambda>result.
                  bind_io (lift (py_getitem fc ''name'')) (\<lambda>name.
                    (let messages2 = messages @
                           [JObj [(''role'', JStr ''assistant''), (''content'', JNull),
                                  (''function_call'', fc)],
                            JObj [(''role'', JStr ''function''), (''name'', name),
                                  (''content'', JStr (json_dumps env result))],
                            final_instruction]
                     in bind_io (call_model env messages2 None) (\<lambda>resp2.
                        bind_io (lift (message_content resp2)) (\<lambda>final_text.
                        bind_io (lift (py_getitem fc ''arguments'')) (\<lambda>arguments.
                          ret (JObj [(''type'', JStr ''function_call''), (''function'', name),
                                     (''function_args'', arguments),
                                     (''function_result'', result),
                                     (''response'', final_text)])))))))
           else
             bind_io (lift (message_content resp)) (\<lambda>text.
               ret (JObj [(''type'', JStr ''direct''), (''response'', text)])))))"

section \<open>Effects on the world\<close>

text \<open>Two shapes of computation: one that leaves a part of the world (the audit log, the
  requests sent, the conversations sent) as it was, and one that appends to the audit log
  the record of the result it returns, and nothing when it raises.\<close>

definition preserves :: "(world \<Rightarrow> 'b) \<Rightarrow> 'a io \<Rightarrow> bool" where
  "preserves part m = (\<forall>w. part (snd (m w)) = part w)"

definition logs_result :: "(json \<Rightarrow> audit_record) \<Rightarrow> json io \<Rightarrow> bool" where
  "logs_result mk m =
     (\<forall>w. audit_log (snd (m w)) =
            audit_log w @ (case fst (m w) of Inl e \<Rightarrow> [] | Inr res \<Rightarrow> [mk res]))"

section \<open>A concrete environment\<close>

text \<open>
  An environment to run the code in: no API key is set, the currency provider answers
  500 INR with 5.6 USD and no other provider is reachable, the model backend answers the
  first conversation of a turn (two messages) with a given text and any later one with
  \<open>Done.\<close>, and \<open>json.loads\<close> is given on the reply texts used below.
\<close>

definition reply_array :: string where
  \<open>reply_array = ''[]''\<close>

definition reply_weather_notadate :: string where
  \<open>reply_weather_notadate =
     ''{"tool":"get_weather_for_date","arguments":{"city":"Pune","date":"notadate"}}''\<close>

definition reply_weather_today :: string where
  \<open>reply_weather_today =
     ''{"tool":"get_weather_for_date","arguments":{"city":"pune city","date":"today","extra":1}}''\<close>

definition reply_currency :: string where
  \<open>reply_currency =
     ''{"tool":"convert_currency","arguments":{"amount":500,"base":"INR","target":"USD"}}''\<close>

definition reply_unknown :: string where
  \<open>reply_unknown = ''{"tool":"get_stock_price","arguments":{"symbol":"ACME"}}''\<close>

definition example_loads :: "string \<Rightarrow> json option" where
  "example_loads s =
     (if s = reply_array then Some (JArr [])
      else if s = reply_weather_notadate then
        Some (JObj [(''tool'', JStr ''get_weather_for_date''),
                    (''arguments'', JObj [(''city'', JStr ''Pune''), (''date'', JStr ''notadate'')])])
      else if s = reply_weather_today then
        Some (JObj [(''tool'', JStr ''get_weather_for_date''),
                    (''arguments'', JObj [(''city'', JStr ''pune city''), (''date'', JStr ''today''),
                                          (''extra'', JInt 1)])])
      else if s = reply_currency then
        Some (JObj [(''tool'', JStr ''convert_currency''),
                    (''arguments'', JObj [(''amount'', JInt 500), (''base'', JStr ''INR''),
                                          (''target'', JStr ''USD'')])])
      else if s = reply_unknown then
        Some (JObj [(''tool'', JStr ''get_stock_price''),
                    (''arguments'', JObj [(''symbol'', JStr ''ACME'')])])
      else None)"

definition example_rates :: json where
  "example_rates =
     JObj [(''amount'', JFloat 500), (''base'', JStr ''INR''), (''date'', JStr ''2026-11-03''),
           (''rates'', JObj [(''USD'', JFloat (28 / 5))])]"

definition assistant_reply :: "string \<Rightarrow> json" where
  "assistant_reply text =
     JObj [(''message'', JObj [(''role'', JStr ''assistant''), (''content'', JStr text)])]"

definition example_env :: "string \<Rightarrow> env" where
  "example_env first_reply =
     \<lparr>openweather_api_key = None, newsapi_key = None,
      http_get = (\<lambda>url params.
         if url = currency_url then Inr \<lparr>status_code = 200, json_body = Inr example_rates\<rparr>
         else Inl ''connection refused''),
      ollama_chat = (\<lambda>messages.
         Inr (assistant_reply (if length messages = 2 then first_reply else ''Done.''))),
      local_today = \<lparr>year = 2026, month = 11, day = 3\<rparr>,
      utc_now = ''2026-11-03T12:00:00+00:00'',
      json_loads = example_loads,
      json_dumps = (\<lambda>v. ''(json)''),
      json_dumps_indent2 = (\<lambda>v. ''(json)''),
      py_repr = (\<lambda>v. ''(value)'')\<rparr>"

definition empty_world :: world where
  "empty_world = \<lparr>audit_log = [], http_log = [], model_log = []\<rparr>"

text \<open>The same environment with a key for the news provider, which answers with three
  articles however many are asked for.\<close>

definition example_article :: "string \<Rightarrow> json" where
  "example_article t =
     JObj [(''title'', JStr t), (''source'', JObj [(''id'', JNull), (''name'', JStr ''Daily'')]),
           (''publishedAt'', JStr ''2026-11-03T08:00:00Z''), (''url'', JStr ''https://example.org''),
           (''description'', JNull), (''content'', JStr ''...'')]"

definition example_news_env :: env where
  "example_news_env =
     (example_env [])\<lparr>newsapi_key := Some ''k'',
        http_get := (\<lambda>url params.
          if url = news_url then
            Inr \<lparr>status_code = 200,
                 json_body = Inr (JObj [(''status'', JStr ''ok''), (''totalResults'', JInt 3),
                   (''articles'', JArr [example_article ''a'', example_article ''b'',
                                        example_article ''c''])])\<rparr>
          else Inl ''connection refused'')\<rparr>"

section \<open>Evaluation rules\<close>

lemmas char_defs = is_space_def is_digit_def is_lower_def is_upper_def is_word_def
  lower_char_def upper_char_def lower_letters_def upper_letters_def digit_chars_def

lemmas text_defs = lower_def upper_def strip_def title_def nat_of_digits_def digit_val_def
  digit_char_def zero_pad_def

lemmas date_defs = make_date_def days_in_month_def is_leap_def isoformat_def add_one_day_def
  fromisoformat_def invalid_isoformat_def match_dmy_def formats_def strptime_def
  month_abbrs_def month_names_def iso_time_ok_def parse_hh_mm_ss_ff_def

lemmas io_defs = ret_def raise_def lift_def bind_io_def catch_io_def

lemmas reply_defs = reply_array_def reply_weather_notadate_def reply_weather_today_def
  reply_currency_def reply_unknown_def

lemmas example_defs = example_env_def example_loads_def example_rates_def assistant_reply_def
  empty_world_def

lemmas py_defs = bind_e_def py_get_def py_getitem_def py_getitem0_def py_contains_def
  py_iter_def py_slice_to_def num_val_def py_truediv_def py_int_def py_str_def py_or_def

lemmas tool_defs = call_function_by_name_def registry_lookup_def FUNCTION_REGISTRY_def
  get_weather_for_date_def get_news_for_city_def convert_currency_def
  log_and_return_def log_call_def init_db_def requests_get_def response_json_def
  usable_key_def error_result_def currency_url_def news_url_def unexpected_keyword_def

lemmas controller_defs = chat_endpoint_def call_model_def extract_function_call_def
  message_content_def get_model_functions_def

section \<open>The normalizers\<close>

lemma normalize_date_today:
  "normalize_date env (JStr ''today'') = Inr (isoformat (local_today env))"
  by (simp add: normalize_date_def char_defs lower_def strip_def)

lemma normalize_date_iso:
  "normalize_date env (JStr ''2026-02-19'') = Inr ''2026-02-19''"
  by (simp add: normalize_date_def char_defs text_defs date_defs)

lemma normalize_date_dashes:
  "normalize_date env (JStr ''19-02-2026'') = Inr ''2026-02-19''"
  by (simp add: normalize_date_def char_defs text_defs date_defs)

lemma normalize_date_slashes:
  "normalize_date env (JStr ''19/02/2026'') = Inr ''2026-02-19''"
  by (simp add: normalize_date_def char_defs text_defs date_defs)

lemma normalize_date_day_month:
  "normalize_date env (JStr ''19 Feb 2026'') = Inr ''2026-02-19''"
  by (simp add: normalize_date_def char_defs text_defs date_defs)

lemma normalize_date_month_day:
  "normalize_date env (JStr ''Feb 19 2026'') = Inr ''2026-02-19''"
  by (simp add: normalize_date_def char_defs text_defs date_defs)

lemma normalize_date_empty:
  "normalize_date env (JStr []) = Inl (ValueError ''Date cannot be empty.'')"
  by (simp add: normalize_date_def)

lemma normalize_date_notadate:
  "normalize_date env (JStr ''notadate'') =
     Inl (ValueError ''Invalid date format. Use YYYY-MM-DD or today/tomorrow.'')"
  by (simp add: normalize_date_def char_defs text_defs date_defs)

text \<open>
  Claim C6. \<open>normalize_date\<close> of \<open>today\<close> is the ISO form of the current local date; of
  \<open>2026-02-19\<close>, \<open>19-02-2026\<close>, \<open>19/02/2026\<close>, \<open>19 Feb 2026\<close> and \<open>Feb 19 2026\<close> it is
  \<open>2026-02-19\<close>; of the empty text and of \<open>notadate\<close> it is a \<open>ValueError\<close>, the
  exception the normalizers reject an input with.
\<close>

theorem normalize_date_examples:
  "normalize_date env (JStr ''today'') = Inr (isoformat (local_today env))
   \<and> normalize_date env (JStr ''2026-02-19'') = Inr ''2026-02-19''
   \<and> normalize_date env (JStr ''19-02-2026'') = Inr ''2026-02-19''
   \<and> normalize_date env (JStr ''19/02/2026'') = Inr ''2026-02-19''
   \<and> normalize_date env (JStr ''19 Feb 2026'') = Inr ''2026-02-19''
   \<and> normalize_date env (JStr ''Feb 19 2026'') = Inr ''2026-02-19''
   \<and> normalize_date env (JStr []) = Inl (ValueError ''Date cannot be empty.'')
   \<and> normalize_date env (JStr ''notadate'') =
       Inl (ValueError ''Invalid date format. Use YYYY-MM-DD or today/tomorrow.'')"
  using normalize_date_today normalize_date_iso normalize_date_dashes normalize_date_slashes
    normalize_date_day_month normalize_date_month_day normalize_date_empty
    normalize_date_notadate
  by blast

lemma lower_eq_city: "lower t = ''city'' \<Longrightarrow> \<exists>a b c d. t = [a, b, c, d]"
  by (auto simp: lower_def map_eq_Cons_conv)

lemma normalize_city_of_city_word:
  assumes "lower (strip s) = ''city''"
  shows "normalize_city (JStr s) = Inr []"
proof -
  obtain a b c d where t: "strip s = [a, b, c, d]"
    using assms lower_eq_city by blast
  have ne: "s \<noteq> []"
    using t by (auto simp: strip_def)
  have "sub_city False (strip s) = []"
    using assms t by simp
  then show ?thesis
    using ne by (simp add: normalize_city_def title_def strip_def)
qed

text \<open>
  Claim C9. \<open>normalize_city\<close> raises on a string exactly when the string is empty; a string
  that is the word \<open>city\<close>, in any letter case and with whitespace around it, is accepted
  and normalized to the empty string.
\<close>

theorem normalize_city_fails_only_on_empty:
  "((\<exists>e. normalize_city (JStr s) = Inl e) \<longleftrightarrow> s = [])
   \<and> (lower (strip s) = ''city'' \<longrightarrow> normalize_city (JStr s) = Inr [])"
  using normalize_city_of_city_word by (simp add: normalize_city_def)

theorem normalize_city_fails_only_on_empty_witness:
  "lower (strip '' CiTy  '') = ''city''
   \<and> normalize_city (JStr '' CiTy  '') = Inr []
   \<and> (\<exists>e. normalize_city (JStr []) = Inl e)"
proof -
  have h: "lower (strip '' CiTy  '') = ''city''"
    by (simp add: char_defs text_defs)
  from normalize_city_fails_only_on_empty [of "'' CiTy  ''"] normalize_city_fails_only_on_empty [of "[]"]
  show ?thesis using h by blast
qed

section \<open>Computations and the world\<close>

lemma bind_lift_Inr: "bind_io (lift (Inr x)) f = f x"
  by (rule ext) (simp add: bind_io_def lift_def)

lemma bind_lift_Inl: "bind_io (lift (Inl e)) f = raise e"
  by (rule ext) (simp add: bind_io_def lift_def raise_def)

lemma preserves_ret: "preserves part (ret x)"
  by (simp add: preserves_def ret_def)

lemma preserves_raise: "preserves part (raise e)"
  by (simp add: preserves_def raise_def)

lemma preserves_lift: "preserves part (lift r)"
  by (simp add: preserves_def lift_def)

lemma preserves_init_db: "preserves part init_db"
  by (simp add: preserves_def init_db_def)

lemma preserves_bind:
  assumes m: "preserves part m" and f: "\<And>x. preserves part (f x)"
  shows "preserves part (bind_io m f)"
  unfolding preserves_def
proof
  fix w
  obtain r w' where mw: "m w = (r, w')" by (cases "m w")
  have a: "part w' = part w"
    using m mw unfolding preserves_def by (metis snd_conv)
  show "part (snd (bind_io m f w)) = part w"
  proof (cases r)
    case (Inl e)
    then show ?thesis using mw a by (simp add: bind_io_def)
  next
    case (Inr x)
    then have "bind_io m f w = f x w'" using mw by (simp add: bind_io_def)
    then show ?thesis using f [of x] a unfolding preserves_def by simp
  qed
qed

lemma preserves_catch:
  assumes m: "preserves part m" and h: "\<And>e. preserves part (h e)"
  shows "preserves part (catch_io m h)"
  unfolding preserves_def
proof
  fix w
  obtain r w' where mw: "m w = (r, w')" by (cases "m w")
  have a: "part w' = part w"
    using m mw unfolding preserves_def by (metis snd_conv)
  show "part (snd (catch_io m h w)) = part w"
  proof (cases r)
    case (Inl e)
    then have "catch_io m h w = h e w'" using mw by (simp add: catch_io_def)
    then show ?thesis using h [of e] a unfolding preserves_def by simp
  next
    case (Inr x)
    then show ?thesis using mw a by (simp add: catch_io_def)
  qed
qed

lemma preserves_if:
  "preserves part m1 \<Longrightarrow> preserves part m2 \<Longrightarrow> preserves part (if b then m1 else m2)"
  by simp

lemma requests_get_audit: "preserves audit_log (requests_get env url params)"
  by (simp add: preserves_def requests_get_def)

lemma requests_get_model: "preserves model_log (requests_get env url params)"
  by (simp add: preserves_def requests_get_def)

lemma log_and_return_http: "preserves http_log (log_and_return env n a res)"
  by (simp add: preserves_def log_and_return_def log_call_def bind_io_def ret_def)

lemma log_and_return_model: "preserves model_log (log_and_return env n a res)"
  by (simp add: preserves_def log_and_return_def log_call_def bind_io_def ret_def)

lemmas preserves_intros = preserves_bind preserves_catch preserves_ret preserves_raise
  preserves_lift preserves_init_db requests_get_audit requests_get_model
  log_and_return_http log_and_return_model

lemma logs_bind:
  assumes m: "preserves audit_log m" and f: "\<And>x. logs_result mk (f x)"
  shows "logs_result mk (bind_io m f)"
  unfolding logs_result_def
proof
  fix w
  obtain r w' where mw: "m w = (r, w')" by (cases "m w")
  have a: "audit_log w' = audit_log w"
    using m mw unfolding preserves_def by (metis snd_conv)
  show "audit_log (snd (bind_io m f w)) =
        audit_log w @ (case fst (bind_io m f w) of Inl e \<Rightarrow> [] | Inr res \<Rightarrow> [mk res])"
  proof (cases r)
    case (Inl e)
    then show ?thesis using mw a by (simp add: bind_io_def)
  next
    case (Inr x)
    then have "bind_io m f w = f x w'" using mw by (simp add: bind_io_def)
    then show ?thesis using f [of x] a unfolding logs_result_def by simp
  qed
qed

lemma logs_lift_bind:
  "(\<And>x. r = Inr x \<Longrightarrow> logs_result mk (f x)) \<Longrightarrow> logs_result mk (bind_io (lift r) f)"
  by (cases r) (auto simp: bind_lift_Inr bind_lift_Inl logs_result_def raise_def)

lemma logs_finish:
  "logs_result (\<lambda>res. \<lparr>ts_utc = utc_now env, function_name = n, arguments_json = a, result_json = res\<rparr>)
     (log_and_return env n a res0)"
  by (simp add: logs_result_def log_and_return_def log_call_def bind_io_def ret_def)

lemma geocode_audit: "preserves audit_log (geocode_city env city)"
  unfolding geocode_city_def
  by (auto intro!: preserves_intros split: option.split)

lemma geocode_model: "preserves model_log (geocode_city env city)"
  unfolding geocode_city_def
  by (auto intro!: preserves_intros split: option.split)

lemma weather_model: "preserves model_log (get_weather_for_date env c0 d0)"
  unfolding get_weather_for_date_def Let_def
  by (auto intro!: preserves_intros geocode_model split: option.split sum.split)

lemma news_model: "preserves model_log (get_news_for_city env c0 ps)"
  unfolding get_news_for_city_def Let_def
  by (auto intro!: preserves_intros split: option.split sum.split)

lemma currency_model: "preserves model_log (convert_currency env a b t)"
  unfolding convert_currency_def Let_def
  by (auto intro!: preserves_intros split: option.split sum.split prod.split)

lemma call_tool_model: "preserves model_log (call_tool env tool kwargs)"
  by (cases tool)
     (auto intro!: preserves_intros weather_model news_model currency_model split: option.split)

lemma dispatcher_model: "preserves model_log (call_function_by_name env name arguments)"
  unfolding call_function_by_name_def
  by (auto intro!: preserves_intros call_tool_model split: option.split)

lemma weather_body_logs:
  "normalize_city c0 = Inr city \<Longrightarrow> normalize_date env d0 = Inr date \<Longrightarrow>
   logs_result (\<lambda>res. \<lparr>ts_utc = utc_now env, function_name = ''get_weather_for_date'',
                       arguments_json = JObj [(''city'', JStr city), (''date'', JStr date)],
                       result_json = res\<rparr>)
     (get_weather_for_date env c0 d0)"
  unfolding get_weather_for_date_def Let_def
  apply (simp only: bind_lift_Inr)
  apply (rule logs_bind, rule preserves_init_db)
  apply (auto intro!: logs_bind logs_lift_bind logs_finish geocode_audit requests_get_audit
              split: option.split sum.split)
  done

lemma news_body_logs:
  "normalize_city c0 = Inr city \<Longrightarrow>
   logs_result (\<lambda>res. \<lparr>ts_utc = utc_now env, function_name = ''get_news_for_city'',
                       arguments_json = JObj [(''city'', JStr city), (''page_size'', ps)],
                       result_json = res\<rparr>)
     (get_news_for_city env c0 ps)"
  unfolding get_news_for_city_def Let_def
  apply (simp only: bind_lift_Inr)
  apply (rule logs_bind, rule preserves_init_db)
  apply (auto intro!: logs_bind logs_lift_bind logs_finish requests_get_audit
              split: option.split sum.split)
  done

lemma weather_returns:
  assumes "get_weather_for_date env c0 d0 w = (Inr result, w')"
  shows "\<exists>city date. normalize_city c0 = Inr city \<and> normalize_date env d0 = Inr date
           \<and> audit_log w' = audit_log w @
               [\<lparr>ts_utc = utc_now env, function_name = ''get_weather_for_date'',
                 arguments_json = JObj [(''city'', JStr city), (''date'', JStr date)],
                 result_json = result\<rparr>]"
proof -
  obtain city where c: "normalize_city c0 = Inr city"
    using assms by (cases "normalize_city c0") (auto simp: get_weather_for_date_def io_defs)
  obtain date where d: "normalize_date env d0 = Inr date"
    using assms c by (cases "normalize_date env d0") (auto simp: get_weather_for_date_def io_defs)
  from weather_body_logs [OF c d, of ] assms show ?thesis
    using c d unfolding logs_result_def by (metis (mono_tags, lifting) fst_conv snd_conv sum.case(2))
qed

lemma news_returns:
  assumes "get_news_for_city env c0 ps w = (Inr result, w')"
  shows "\<exists>city. normalize_city c0 = Inr city
           \<and> audit_log w' = audit_log w @
               [\<lparr>ts_utc = utc_now env, function_name = ''get_news_for_city'',
                 arguments_json = JObj [(''city'', JStr city), (''page_size'', ps)],
                 result_json = result\<rparr>]"
proof -
  obtain city where c: "normalize_city c0 = Inr city"
    using assms by (cases "normalize_city c0") (auto simp: get_news_for_city_def io_defs)
  from news_body_logs [OF c] assms show ?thesis
    using c unfolding logs_result_def by (metis (mono_tags, lifting) fst_conv snd_conv sum.case(2))
qed

section \<open>The dispatcher\<close>

lemma clean_args_found:
  "clean_args ks arguments = Inr cleaned \<Longrightarrow> map_of cleaned k = Some v \<Longrightarrow>
   k \<in> set ks \<and> py_getitem arguments k = Inr v"
proof (induction ks arbitrary: cleaned)
  case Nil
  then show ?case by simp
next
  case (Cons a ks)
  then show ?case
    by (auto simp: bind_e_def split: sum.splits if_splits)
qed

lemma clean_args_missing:
  "clean_args ks arguments = Inr cleaned \<Longrightarrow> k \<in> set ks \<Longrightarrow> map_of cleaned k = None \<Longrightarrow>
   py_contains arguments k = Inr False"
proof (induction ks arbitrary: cleaned)
  case Nil
  then show ?case by simp
next
  case (Cons a ks)
  then show ?case
    by (auto simp: bind_e_def split: sum.splits if_splits)
qed

lemma not_contained_no_item: "py_contains x k = Inr False \<Longrightarrow> \<exists>e. py_getitem x k = Inl e"
  by (cases x) (auto simp: py_contains_def py_getitem_def map_of_eq_None_iff split: option.splits)

lemma clean_args_obj:
  "clean_args ks (JObj kvs) =
     Inr (map (\<lambda>k. (k, the (map_of kvs k))) (filter (\<lambda>k. k \<in> set (map fst kvs)) ks))"
proof (induction ks)
  case Nil
  then show ?case by simp
next
  case (Cons k ks)
  show ?case
  proof (cases "k \<in> set (map fst kvs)")
    case True
    then obtain v where "map_of kvs k = Some v"
      by (metis map_of_eq_None_iff not_Some_eq set_map)
    with True Cons show ?thesis
      by (simp add: bind_e_def py_contains_def py_getitem_def)
  next
    case False
    with Cons show ?thesis
      by (simp add: bind_e_def py_contains_def)
  qed
qed

lemma registry_weather:
  "map_of FUNCTION_REGISTRY ''get_weather_for_date'' = Some meta \<Longrightarrow>
   callable meta = Get_weather_for_date \<and> map fst (properties meta) = [''city'', ''date'']"
  by (auto simp: FUNCTION_REGISTRY_def)

lemma registry_news:
  "map_of FUNCTION_REGISTRY ''get_news_for_city'' = Some meta \<Longrightarrow>
   callable meta = Get_news_for_city \<and> map fst (properties meta) = [''city'', ''page_size'']"
  by (auto simp: FUNCTION_REGISTRY_def)

lemma registry_parameters:
  "map_of FUNCTION_REGISTRY n = Some meta \<Longrightarrow>
   map fst (properties meta) = parameter_names (callable meta)"
  by (auto simp: FUNCTION_REGISTRY_def split: if_splits)

lemma unexpected_keyword_raises:
  "unexpected_keyword fn kwargs \<Longrightarrow> call_tool env fn kwargs w = (Inl TypeError, w)"
  by (cases fn) (simp_all add: raise_def)

lemma dispatch_cases:
  assumes "call_function_by_name env (JStr n) arguments w = (r, w')"
  shows "(map_of FUNCTION_REGISTRY n = None \<and> r = Inl (ValueError (''Unknown function: '' @ n)) \<and> w' = w)
       \<or> (\<exists>meta e. map_of FUNCTION_REGISTRY n = Some meta
             \<and> clean_args (map fst (properties meta)) arguments = Inl e \<and> r = Inl e \<and> w' = w)
       \<or> (\<exists>meta cleaned. map_of FUNCTION_REGISTRY n = Some meta
             \<and> clean_args (map fst (properties meta)) arguments = Inr cleaned
             \<and> call_tool env (callable meta) cleaned w = (r, w'))"
  using assms
  by (auto simp: call_function_by_name_def registry_lookup_def io_defs py_str_def
           split: option.splits sum.splits)

text \<open>
  Claim C5. For a registered tool and a raw argument mapping, the dispatcher calls the
  tool with the keyword arguments \<open>cleaned\<close>, whose keys are exactly the keys of the tool's
  parameter schema that the mapping has, each with the mapping's value. The schema keys
  are the parameters of the tool, so no keyword of \<open>cleaned\<close> is unexpected; the raw
  mapping itself, when it has a key the tool does not declare, would be refused by the
  tool with a \<open>TypeError\<close>: such a key is dropped and never passed on.
\<close>

theorem sanitized_arguments_within_schema:
  assumes "map_of FUNCTION_REGISTRY n = Some meta"
  shows "\<exists>cleaned.
           clean_args (map fst (properties meta)) (JObj kvs) = Inr cleaned
         \<and> call_function_by_name env (JStr n) (JObj kvs) w = call_tool env (callable meta) cleaned w
         \<and> set (map fst cleaned) = set (map fst (properties meta)) \<inter> set (map fst kvs)
         \<and> (\<forall>k \<in> set (map fst cleaned). map_of cleaned k = map_of kvs k)
         \<and> map fst (properties meta) = parameter_names (callable meta)
         \<and> \<not> unexpected_keyword (callable meta) cleaned
         \<and> (unexpected_keyword (callable meta) kvs \<longrightarrow>
               call_tool env (callable meta) kvs w = (Inl TypeError, w))"
proof -
  define cleaned where
    "cleaned = map (\<lambda>k. (k, the (map_of kvs k)))
                 (filter (\<lambda>k. k \<in> set (map fst kvs)) (map fst (properties meta)))"
  have cl: "clean_args (map fst (properties meta)) (JObj kvs) = Inr cleaned"
    by (simp add: clean_args_obj cleaned_def)
  have call: "call_function_by_name env (JStr n) (JObj kvs) w = call_tool env (callable meta) cleaned w"
    using assms cl by (simp add: call_function_by_name_def registry_lookup_def io_defs)
  have keys: "map fst cleaned = filter (\<lambda>k. k \<in> set (map fst kvs)) (map fst (properties meta))"
    by (simp add: cleaned_def comp_def)
  have vals: "\<forall>k \<in> set (map fst cleaned). map_of cleaned k = map_of kvs k"
  proof
    fix k assume k: "k \<in> set (map fst cleaned)"
    then obtain v where v: "map_of cleaned k = Some v"
      by (metis map_of_eq_None_iff not_Some_eq set_map)
    from clean_args_found [OF cl v] show "map_of cleaned k = map_of kvs k"
      using v by (auto simp: py_getitem_def split: option.splits)
  qed
  have kset: "set (map fst cleaned) = set (map fst (properties meta)) \<inter> set (map fst kvs)"
    unfolding keys by auto
  have params: "map fst (properties meta) = parameter_names (callable meta)"
    by (rule registry_parameters [OF assms])
  have expected: "\<not> unexpected_keyword (callable meta) cleaned"
    using kset params by (auto simp: unexpected_keyword_def list_all_iff)
  have raw: "unexpected_keyword (callable meta) kvs \<longrightarrow>
               call_tool env (callable meta) kvs w = (Inl TypeError, w)"
    using unexpected_keyword_raises by blast
  show ?thesis
    using cl call kset vals params expected raw by blast
qed

theorem sanitized_arguments_within_schema_witness:
  "map_of FUNCTION_REGISTRY ''get_weather_for_date'' \<noteq> None
   \<and> clean_args [''city'', ''date'']
        (JObj [(''city'', JStr ''Pune''), (''date'', JStr ''today''), (''extra'', JInt 1)])
      = Inr [(''city'', JStr ''Pune''), (''date'', JStr ''today'')]
   \<and> unexpected_keyword Get_weather_for_date
        [(''city'', JStr ''Pune''), (''date'', JStr ''today''), (''extra'', JInt 1)]
   \<and> call_tool (example_env []) Get_weather_for_date
        [(''city'', JStr ''Pune''), (''date'', JStr ''today''), (''extra'', JInt 1)] empty_world
      = (Inl TypeError, empty_world)
   \<and> fst (call_function_by_name (example_env []) (JStr ''get_weather_for_date'')
           (JObj [(''city'', JStr ''Pune''), (''date'', JStr ''today''), (''extra'', JInt 1)])
           empty_world)
      = Inr (JObj [(''error'', JStr ''Missing OPENWEATHER_API_KEY in environment'')])
   \<and> (\<exists>cleaned.
         call_function_by_name (example_env []) (JStr ''get_weather_for_date'')
           (JObj [(''city'', JStr ''Pune''), (''date'', JStr ''today''), (''extra'', JInt 1)]) empty_world
         = call_tool (example_env []) Get_weather_for_date cleaned empty_world
       \<and> set (map fst cleaned) = {''city'', ''date''}
       \<and> \<not> unexpected_keyword Get_weather_for_date cleaned)"
proof -
  have m: "map_of FUNCTION_REGISTRY ''get_weather_for_date'' = Some (snd (hd FUNCTION_REGISTRY))"
    by (simp add: FUNCTION_REGISTRY_def)
  have c: "clean_args [''city'', ''date'']
        (JObj [(''city'', JStr ''Pune''), (''date'', JStr ''today''), (''extra'', JInt 1)])
      = Inr [(''city'', JStr ''Pune''), (''date'', JStr ''today'')]"
    by (simp add: bind_e_def py_contains_def py_getitem_def)
  have u: "unexpected_keyword Get_weather_for_date
        [(''city'', JStr ''Pune''), (''date'', JStr ''today''), (''extra'', JInt 1)]"
    by (simp add: unexpected_keyword_def)
  have r: "fst (call_function_by_name (example_env []) (JStr ''get_weather_for_date'')
           (JObj [(''city'', JStr ''Pune''), (''date'', JStr ''today''), (''extra'', JInt 1)])
           empty_world)
      = Inr (JObj [(''error'', JStr ''Missing OPENWEATHER_API_KEY in environment'')])"
    by (simp add: tool_defs py_defs io_defs example_defs normalize_city_def normalize_date_def
          char_defs text_defs date_defs)
  have cm: "callable (snd (hd FUNCTION_REGISTRY)) = Get_weather_for_date"
    and ps: "map fst (properties (snd (hd FUNCTION_REGISTRY))) = [''city'', ''date'']"
    by (simp_all add: FUNCTION_REGISTRY_def)
  from sanitized_arguments_within_schema [OF m,
      of "[(''city'', JStr ''Pune''), (''date'', JStr ''today''), (''extra'', JInt 1)]"
         "example_env []" empty_world]
  obtain cleaned where
    "call_function_by_name (example_env []) (JStr ''get_weather_for_date'')
           (JObj [(''city'', JStr ''Pune''), (''date'', JStr ''today''), (''extra'', JInt 1)]) empty_world
         = call_tool (example_env []) Get_weather_for_date cleaned empty_world"
    and "set (map fst cleaned) = set [''city'', ''date'']
           \<inter> set (map fst [(''city'', JStr ''Pune''), (''date'', JStr ''today''), (''extra'', JInt 1)])"
    and "\<not> unexpected_keyword Get_weather_for_date cleaned"
    and "unexpected_keyword Get_weather_for_date
           [(''city'', JStr ''Pune''), (''date'', JStr ''today''), (''extra'', JInt 1)] \<longrightarrow>
         call_tool (example_env []) Get_weather_for_date
           [(''city'', JStr ''Pune''), (''date'', JStr ''today''), (''extra'', JInt 1)] empty_world
         = (Inl TypeError, empty_world)"
    unfolding cm ps by blast
  then have "call_tool (example_env []) Get_weather_for_date
        [(''city'', JStr ''Pune''), (''date'', JStr ''today''), (''extra'', JInt 1)] empty_world
      = (Inl TypeError, empty_world)"
    and "\<exists>cleaned.
         call_function_by_name (example_env []) (JStr ''get_weather_for_date'')
           (JObj [(''city'', JStr ''Pune''), (''date'', JStr ''today''), (''extra'', JInt 1)]) empty_world
         = call_tool (example_env []) Get_weather_for_date cleaned empty_world
       \<and> set (map fst cleaned) = {''city'', ''date''}
       \<and> \<not> unexpected_keyword Get_weather_for_date cleaned"
    using u by auto
  with m c u r show ?thesis by simp
qed

subsection \<open>Runs in the concrete environment\<close>

lemma example_weather_call:
  "call_function_by_name (example_env reply) (JStr ''get_weather_for_date'')
     (JObj [(''city'', JStr ''pune city''), (''date'', JStr ''today''), (''extra'', JInt 1)]) empty_world
   = (Inr (JObj [(''error'', JStr ''Missing OPENWEATHER_API_KEY in environment'')]),
      \<lparr>audit_log =
         [\<lparr>ts_utc = ''2026-11-03T12:00:00+00:00'', function_name = ''get_weather_for_date'',
           arguments_json = JObj [(''city'', JStr ''Pune''), (''date'', JStr ''2026-11-03'')],
           result_json = JObj [(''error'', JStr ''Missing OPENWEATHER_API_KEY in environment'')]\<rparr>],
       http_log = [], model_log = []\<rparr>)"
  by (simp add: tool_defs py_defs io_defs example_defs normalize_city_def normalize_date_def
        char_defs text_defs date_defs)

lemma example_convert:
  "call_function_by_name (example_env reply) (JStr ''convert_currency'')
     (JObj [(''amount'', JInt 500), (''base'', JStr ''INR''), (''target'', JStr ''USD'')]) w
   = (Inr (JObj [(''amount'', JInt 500), (''base'', JStr ''INR''), (''target'', JStr ''USD''),
                 (''converted'', JFloat (28 / 5)), (''rate'', JFloat (7 / 625))]),
      w\<lparr>http_log := http_log w @
           [(currency_url, [(''amount'', JInt 500), (''from'', JStr ''INR''), (''to'', JStr ''USD'')])]\<rparr>)"
  by (simp add: tool_defs py_defs io_defs example_defs normalize_currency_def char_defs text_defs)

text \<open>
  Claim C1, as stated, fails. A call of \<open>convert_currency\<close> through the dispatcher returns
  its result and leaves the audit log empty; a call of \<open>get_weather_for_date\<close> with the raw
  arguments \<open>pune city\<close>, \<open>today\<close> and an extra key appends a record whose arguments are
  the normalized \<open>Pune\<close> and \<open>2026-11-03\<close>, not the raw mapping.
\<close>

theorem audit_record_counterexample:
  "call_function_by_name (example_env []) (JStr ''convert_currency'')
     (JObj [(''amount'', JInt 500), (''base'', JStr ''INR''), (''target'', JStr ''USD'')]) empty_world
   = (Inr (JObj [(''amount'', JInt 500), (''base'', JStr ''INR''), (''target'', JStr ''USD''),
                 (''converted'', JFloat (28 / 5)), (''rate'', JFloat (7 / 625))]),
      \<lparr>audit_log = [],
       http_log = [(currency_url, [(''amount'', JInt 500), (''from'', JStr ''INR''), (''to'', JStr ''USD'')])],
       model_log = []\<rparr>)
   \<and> call_function_by_name (example_env []) (JStr ''get_weather_for_date'')
     (JObj [(''city'', JStr ''pune city''), (''date'', JStr ''today''), (''extra'', JInt 1)]) empty_world
   = (Inr (JObj [(''error'', JStr ''Missing OPENWEATHER_API_KEY in environment'')]),
      \<lparr>audit_log =
         [\<lparr>ts_utc = ''2026-11-03T12:00:00+00:00'', function_name = ''get_weather_for_date'',
           arguments_json = JObj [(''city'', JStr ''Pune''), (''date'', JStr ''2026-11-03'')],
           result_json = JObj [(''error'', JStr ''Missing OPENWEATHER_API_KEY in environment'')]\<rparr>],
       http_log = [], model_log = []\<rparr>)"
  by (simp add: example_weather_call example_convert) (simp add: empty_world_def)

text \<open>
  Claim C1, amended. The dispatcher itself writes no record; the weather and the news tool
  do. A dispatcher call of \<open>get_weather_for_date\<close> or \<open>get_news_for_city\<close> that returns
  (also a result shaped as an error) has appended exactly one record, holding the tool's
  name, the arguments as the tool normalized them (the normalized city, and the normalized
  date or the page size as passed, 5 when absent) and the result that is returned.
\<close>

theorem tool_call_appends_audit_record:
  assumes "call_function_by_name env (JStr n) arguments w = (Inr result, w')"
  shows "(n = ''get_weather_for_date'' \<longrightarrow>
           (\<exists>c0 d0 city date.
              py_getitem arguments ''city'' = Inr c0 \<and> py_getitem arguments ''date'' = Inr d0
              \<and> normalize_city c0 = Inr city \<and> normalize_date env d0 = Inr date
              \<and> audit_log w' = audit_log w @
                  [\<lparr>ts_utc = utc_now env, function_name = n,
                    arguments_json = JObj [(''city'', JStr city), (''date'', JStr date)],
                    result_json = result\<rparr>]))
       \<and> (n = ''get_news_for_city'' \<longrightarrow>
           (\<exists>c0 city.
              py_getitem arguments ''city'' = Inr c0 \<and> normalize_city c0 = Inr city
              \<and> audit_log w' = audit_log w @
                  [\<lparr>ts_utc = utc_now env, function_name = n,
                    arguments_json =
                      JObj [(''city'', JStr city),
                            (''page_size'',
                               (case py_getitem arguments ''page_size'' of
                                  Inr p \<Rightarrow> p | Inl e \<Rightarrow> JInt 5))],
                    result_json = result\<rparr>]))"
proof (intro conjI impI)
  assume n: "n = ''get_weather_for_date''"
  from dispatch_cases [OF assms] obtain meta cleaned where
    m: "map_of FUNCTION_REGISTRY n = Some meta"
    and cl: "clean_args (map fst (properties meta)) arguments = Inr cleaned"
    and ct: "call_tool env (callable meta) cleaned w = (Inr result, w')"
    by auto
  have cm: "callable meta = Get_weather_for_date" using registry_weather m n by blast
  from ct cm obtain c0 d0 where c0: "map_of cleaned ''city'' = Some c0"
    and d0: "map_of cleaned ''date'' = Some d0"
    and g: "get_weather_for_date env c0 d0 w = (Inr result, w')"
    by (auto simp: raise_def split: option.splits if_splits)
  from weather_returns [OF g] clean_args_found [OF cl c0] clean_args_found [OF cl d0] n
  show "\<exists>c0 d0 city date.
          py_getitem arguments ''city'' = Inr c0 \<and> py_getitem arguments ''date'' = Inr d0
          \<and> normalize_city c0 = Inr city \<and> normalize_date env d0 = Inr date
          \<and> audit_log w' = audit_log w @
              [\<lparr>ts_utc = utc_now env, function_name = n,
                arguments_json = JObj [(''city'', JStr city), (''date'', JStr date)],
                result_json = result\<rparr>]"
    by blast
next
  assume n: "n = ''get_news_for_city''"
  from dispatch_cases [OF assms] obtain meta cleaned where
    m: "map_of FUNCTION_REGISTRY n = Some meta"
    and cl: "clean_args (map fst (properties meta)) arguments = Inr cleaned"
    and ct: "call_tool env (callable meta) cleaned w = (Inr result, w')"
    by auto
  have cm: "callable meta = Get_news_for_city"
    and ks: "map fst (properties meta) = [''city'', ''page_size'']"
    using registry_news m n by blast+
  define ps where "ps = (case map_of cleaned ''page_size'' of Some p \<Rightarrow> p | None \<Rightarrow> JInt 5)"
  from ct cm obtain c0 where c0: "map_of cleaned ''city'' = Some c0"
    and g: "get_news_for_city env c0 ps w = (Inr result, w')"
    by (auto simp: raise_def ps_def split: option.splits if_splits)
  have "ps = (case py_getitem arguments ''page_size'' of Inr p \<Rightarrow> p | Inl e \<Rightarrow> JInt 5)"
  proof (cases "map_of cleaned ''page_size''")
    case None
    have "py_contains arguments ''page_size'' = Inr False"
      using clean_args_missing [OF cl _ None] ks by simp
    then obtain e where "py_getitem arguments ''page_size'' = Inl e"
      using not_contained_no_item by blast
    then show ?thesis using None by (simp add: ps_def)
  next
    case (Some p)
    then show ?thesis using clean_args_found [OF cl Some] by (simp add: ps_def)
  qed
  with news_returns [OF g] clean_args_found [OF cl c0] n
  show "\<exists>c0 city.
          py_getitem arguments ''city'' = Inr c0 \<and> normalize_city c0 = Inr city
          \<and> audit_log w' = audit_log w @
              [\<lparr>ts_utc = utc_now env, function_name = n,
                arguments_json =
                  JObj [(''city'', JStr city),
                        (''page_size'',
                           (case py_getitem arguments ''page_size'' of
                              Inr p \<Rightarrow> p | Inl e \<Rightarrow> JInt 5))],
                result_json = result\<rparr>]"
    by auto
qed

theorem tool_call_appends_audit_record_witness:
  "call_function_by_name (example_env []) (JStr ''get_weather_for_date'')
     (JObj [(''city'', JStr ''pune city''), (''date'', JStr ''today''), (''extra'', JInt 1)]) empty_world
   = (Inr (JObj [(''error'', JStr ''Missing OPENWEATHER_API_KEY in environment'')]),
      \<lparr>audit_log =
         [\<lparr>ts_utc = ''2026-11-03T12:00:00+00:00'', function_name = ''get_weather_for_date'',
           arguments_json = JObj [(''city'', JStr ''Pune''), (''date'', JStr ''2026-11-03'')],
           result_json = JObj [(''error'', JStr ''Missing OPENWEATHER_API_KEY in environment'')]\<rparr>],
       http_log = [], model_log = []\<rparr>)
   \<and> (\<exists>city date.
         normalize_city (JStr ''pune city'') = Inr city
       \<and> normalize_date (example_env []) (JStr ''today'') = Inr date
       \<and> [\<lparr>ts_utc = ''2026-11-03T12:00:00+00:00'', function_name = ''get_weather_for_date'',
           arguments_json = JObj [(''city'', JStr ''Pune''), (''date'', JStr ''2026-11-03'')],
           result_json = JObj [(''error'', JStr ''Missing OPENWEATHER_API_KEY in environment'')]\<rparr>]
         = [\<lparr>ts_utc = utc_now (example_env []), function_name = ''get_weather_for_date'',
             arguments_json = JObj [(''city'', JStr city), (''date'', JStr date)],
             result_json = JObj [(''error'', JStr ''Missing OPENWEATHER_API_KEY in environment'')]\<rparr>])"
proof -
  note run = example_weather_call [of "[]"]
  from tool_call_appends_audit_record [OF run]
  obtain c0 d0 city date where
    "py_getitem (JObj [(''city'', JStr ''pune city''), (''date'', JStr ''today''), (''extra'', JInt 1)])
       ''city'' = Inr c0"
    "py_getitem (JObj [(''city'', JStr ''pune city''), (''date'', JStr ''today''), (''extra'', JInt 1)])
       ''date'' = Inr d0"
    "normalize_city c0 = Inr city" "normalize_date (example_env []) d0 = Inr date"
    "[\<lparr>ts_utc = ''2026-11-03T12:00:00+00:00'', function_name = ''get_weather_for_date'',
           arguments_json = JObj [(''city'', JStr ''Pune''), (''date'', JStr ''2026-11-03'')],
           result_json = JObj [(''error'', JStr ''Missing OPENWEATHER_API_KEY in environment'')]\<rparr>]
         = [\<lparr>ts_utc = utc_now (example_env []), function_name = ''get_weather_for_date'',
             arguments_json = JObj [(''city'', JStr city), (''date'', JStr date)],
             result_json = JObj [(''error'', JStr ''Missing OPENWEATHER_API_KEY in environment'')]\<rparr>]"
    by (auto simp: empty_world_def)
  then show ?thesis
    using run by (auto simp: py_getitem_def)
qed

section \<open>The news and the currency tool\<close>

lemma collect_articles_length:
  "collect_articles items = Inr articles \<Longrightarrow> length articles = length items"
  by (induction items arbitrary: articles) (auto simp: bind_e_def split: sum.splits)

lemma sliced_length:
  "py_slice_to listed n = Inr sliced \<Longrightarrow> py_iter sliced = Inr items \<Longrightarrow> length items \<le> n"
  by (cases listed) (auto simp: py_slice_to_def py_iter_def)

lemma news_core:
  assumes c: "normalize_city city = Inr c" and k: "usable_key (newsapi_key env) = Some api_key"
  shows "get_news_for_city env city (JInt page_size) w =
     (let pageSize = max 1 (min page_size 20);
          params = [(''q'', JStr c), (''pageSize'', JInt pageSize),
                    (''sortBy'', JStr ''publishedAt''), (''language'', JStr ''en''),
                    (''apiKey'', JStr api_key)];
          finish = log_and_return env ''get_news_for_city''
                     (JObj [(''city'', JStr c), (''page_size'', JInt page_size)])
      in bind_io (requests_get env news_url params) (\<lambda>r.
           if status_code r \<noteq> 200 then
             bind_io (lift (response_json r)) (\<lambda>body. finish (error_result body))
           else
             bind_io (lift (response_json r)) (\<lambda>data.
             bind_io (lift (py_get data ''articles'' (JArr []))) (\<lambda>listed.
             bind_io (lift (py_slice_to listed (nat pageSize))) (\<lambda>sliced.
             bind_io (lift (py_iter sliced)) (\<lambda>items.
             bind_io (lift (collect_articles items)) (\<lambda>articles.
               finish (JObj [(''city'', JStr c),
                             (''count'', JInt (int (length articles))),
                             (''articles'', JArr articles)]))))))) w)"
  using c k
  by (simp add: get_news_for_city_def Let_def bind_lift_Inr py_int_def)
     (simp add: bind_io_def init_db_def)

lemma news_count:
  assumes run: "get_news_for_city env city (JInt page_size) w = (Inr result, w')"
    and count: "py_getitem result ''count'' = Inr n"
  shows "\<exists>c api_key articles.
           normalize_city city = Inr c
         \<and> http_log w' = http_log w @
             [(news_url, [(''q'', JStr c), (''pageSize'', JInt (max 1 (min page_size 20))),
                          (''sortBy'', JStr ''publishedAt''), (''language'', JStr ''en''),
                          (''apiKey'', JStr api_key)])]
         \<and> result = JObj [(''city'', JStr c), (''count'', JInt (int (length articles))),
                          (''articles'', JArr articles)]
         \<and> n = JInt (int (length articles))
         \<and> int (length articles) \<le> max 1 (min page_size 20)"
proof -
  obtain c where c: "normalize_city city = Inr c"
    using run by (cases "normalize_city city") (auto simp: get_news_for_city_def io_defs)
  obtain api_key where k: "usable_key (newsapi_key env) = Some api_key"
    using run count c
    by (cases "usable_key (newsapi_key env)")
       (auto simp: get_news_for_city_def Let_def bind_lift_Inr io_defs init_db_def
          log_and_return_def log_call_def error_result_def py_getitem_def)
  define params where "params =
     [(''q'', JStr c), (''pageSize'', JInt (max 1 (min page_size 20))),
      (''sortBy'', JStr ''publishedAt''), (''language'', JStr ''en''), (''apiKey'', JStr api_key)]"
  define w1 where "w1 = w\<lparr>http_log := http_log w @ [(news_url, params)]\<rparr>"
  have run': "get_news_for_city env city (JInt page_size) w = (Inr result, w')"
    by (rule run)
  obtain r where r: "http_get env news_url params = Inr r"
    using run' unfolding news_core [OF c k]
    by (cases "http_get env news_url params")
       (auto simp: Let_def bind_io_def requests_get_def params_def)
  have ok: "status_code r = 200"
  proof (rule ccontr)
    assume "status_code r \<noteq> 200"
    then show False
      using run' count r unfolding news_core [OF c k]
      by (cases "response_json r")
         (auto simp: Let_def bind_io_def lift_def requests_get_def params_def
            log_and_return_def log_call_def ret_def error_result_def py_getitem_def)
  qed
  have step: "bind_io (lift (response_json r)) (\<lambda>data.
             bind_io (lift (py_get data ''articles'' (JArr []))) (\<lambda>listed.
             bind_io (lift (py_slice_to listed (nat (max 1 (min page_size 20))))) (\<lambda>sliced.
             bind_io (lift (py_iter sliced)) (\<lambda>items.
             bind_io (lift (collect_articles items)) (\<lambda>articles.
               log_and_return env ''get_news_for_city''
                     (JObj [(''city'', JStr c), (''page_size'', JInt page_size)])
                  (JObj [(''city'', JStr c),
                             (''count'', JInt (int (length articles))),
                             (''articles'', JArr articles)])))))) w1 = (Inr result, w')"
    using run' r ok unfolding news_core [OF c k]
    by (simp add: Let_def bind_io_def requests_get_def params_def w1_def)
  obtain data where data: "response_json r = Inr data"
    using step by (cases "response_json r") (auto simp: bind_io_def lift_def)
  obtain listed where listed: "py_get data ''articles'' (JArr []) = Inr listed"
    using step data by (cases "py_get data ''articles'' (JArr [])") (auto simp: bind_io_def lift_def)
  obtain sliced where sliced: "py_slice_to listed (nat (max 1 (min page_size 20))) = Inr sliced"
    using step data listed
    by (cases "py_slice_to listed (nat (max 1 (min page_size 20)))") (auto simp: bind_io_def lift_def)
  obtain items where items: "py_iter sliced = Inr items"
    using step data listed sliced by (cases "py_iter sliced") (auto simp: bind_io_def lift_def)
  obtain articles where articles: "collect_articles items = Inr articles"
    using step data listed sliced items
    by (cases "collect_articles items") (auto simp: bind_io_def lift_def)
  have res: "result = JObj [(''city'', JStr c), (''count'', JInt (int (length articles))),
                            (''articles'', JArr articles)]"
    and w': "w' = w1\<lparr>audit_log := audit_log w1 @
                    [\<lparr>ts_utc = utc_now env, function_name = ''get_news_for_city'',
                      arguments_json = JObj [(''city'', JStr c), (''page_size'', JInt page_size)],
                      result_json = result\<rparr>]\<rparr>"
    using step data listed sliced items articles
    by (auto simp: bind_lift_Inr log_and_return_def log_call_def bind_io_def ret_def)
  have len: "int (length articles) \<le> max 1 (min page_size 20)"
    using collect_articles_length [OF articles] sliced_length [OF sliced items] by linarith
  have n: "n = JInt (int (length articles))"
    using count res by (simp add: py_getitem_def)
  have log: "http_log w' = http_log w @ [(news_url, params)]"
    using w' by (simp add: w1_def)
  show ?thesis
    using c res n len log unfolding params_def by blast
qed

lemma news_rest_http:
  "preserves http_log
     (if status_code r \<noteq> 200 then
        bind_io (lift (response_json r)) (\<lambda>body.
          log_and_return env ''get_news_for_city'' logged (error_result body))
      else
        bind_io (lift (response_json r)) (\<lambda>data.
        bind_io (lift (py_get data ''articles'' (JArr []))) (\<lambda>listed.
        bind_io (lift (py_slice_to listed n)) (\<lambda>sliced.
        bind_io (lift (py_iter sliced)) (\<lambda>items.
        bind_io (lift (collect_articles items)) (\<lambda>articles.
          log_and_return env ''get_news_for_city'' logged
            (JObj [(''city'', JStr c), (''count'', JInt (int (length articles))),
                   (''articles'', JArr articles)])))))))"
  by (rule preserves_if) (intro preserves_bind preserves_lift log_and_return_http)+

lemma news_requests:
  assumes run: "get_news_for_city env city (JInt page_size) w = (r, w')"
  shows "http_log w' = http_log w
       \<or> (\<exists>c api_key. http_log w' = http_log w @
             [(news_url, [(''q'', JStr c), (''pageSize'', JInt (max 1 (min page_size 20))),
                          (''sortBy'', JStr ''publishedAt''), (''language'', JStr ''en''),
                          (''apiKey'', JStr api_key)])])"
proof (cases "normalize_city city")
  case (Inl e)
  then have "w' = w"
    using run by (simp add: get_news_for_city_def io_defs)
  then show ?thesis by simp
next
  case c: (Inr c)
  show ?thesis
  proof (cases "usable_key (newsapi_key env)")
    case None
    then have "http_log w' = http_log w"
      using run c
      by (auto simp: get_news_for_city_def Let_def bind_lift_Inr io_defs init_db_def
            log_and_return_def log_call_def)
    then show ?thesis by simp
  next
    case k: (Some api_key)
    define params where "params =
       [(''q'', JStr c), (''pageSize'', JInt (max 1 (min page_size 20))),
        (''sortBy'', JStr ''publishedAt''), (''language'', JStr ''en''), (''apiKey'', JStr api_key)]"
    define w1 where "w1 = w\<lparr>http_log := http_log w @ [(news_url, params)]\<rparr>"
    define rest where "rest = (\<lambda>r.
      if status_code r \<noteq> 200 then
        bind_io (lift (response_json r)) (\<lambda>body.
          log_and_return env ''get_news_for_city''
            (JObj [(''city'', JStr c), (''page_size'', JInt page_size)]) (error_result body))
      else
        bind_io (lift (response_json r)) (\<lambda>data.
        bind_io (lift (py_get data ''articles'' (JArr []))) (\<lambda>listed.
        bind_io (lift (py_slice_to listed (nat (max 1 (min page_size 20))))) (\<lambda>sliced.
        bind_io (lift (py_iter sliced)) (\<lambda>items.
        bind_io (lift (collect_articles items)) (\<lambda>articles.
          log_and_return env ''get_news_for_city''
            (JObj [(''city'', JStr c), (''page_size'', JInt page_size)])
            (JObj [(''city'', JStr c), (''count'', JInt (int (length articles))),
                   (''articles'', JArr articles)])))))))"
    have core: "get_news_for_city env city (JInt page_size) w =
                  bind_io (requests_get env news_url params) rest w"
      unfolding news_core [OF c k] rest_def params_def by (simp add: Let_def)
    have keep: "http_log (snd (rest resp w1)) = http_log w1" for resp
      using news_rest_http [of resp env
            "JObj [(''city'', JStr c), (''page_size'', JInt page_size)]"
            "nat (max 1 (min page_size 20))" c]
      unfolding preserves_def rest_def by blast
    have "http_log w' = http_log w1"
    proof (cases "http_get env news_url params")
      case (Inl m)
      then have "w' = w1"
        using run unfolding core by (simp add: bind_io_def requests_get_def w1_def)
      then show ?thesis by simp
    next
      case (Inr resp)
      then have "(r, w') = rest resp w1"
        using run unfolding core by (simp add: bind_io_def requests_get_def w1_def)
      then show ?thesis
        using keep [of resp] by (metis snd_conv)
    qed
    then show ?thesis
      unfolding w1_def params_def by auto
  qed
qed

text \<open>
  Claim C8. For an integer \<open>page_size\<close>, \<open>get_news_for_city\<close> sends the provider at most
  one request, and that request asks for \<open>max(1, min(page_size, 20))\<close> articles. In a
  result that has a \<open>count\<close>, the count is the length of the \<open>articles\<close> list, which is at
  most that bound.
\<close>

theorem news_page_size_is_clamped:
  assumes run: "get_news_for_city env city (JInt page_size) w = (r, w')"
  shows "(http_log w' = http_log w
          \<or> (\<exists>c api_key. http_log w' = http_log w @
                [(news_url, [(''q'', JStr c), (''pageSize'', JInt (max 1 (min page_size 20))),
                             (''sortBy'', JStr ''publishedAt''), (''language'', JStr ''en''),
                             (''apiKey'', JStr api_key)])]))
       \<and> (\<forall>result n. r = Inr result \<and> py_getitem result ''count'' = Inr n \<longrightarrow>
            (\<exists>articles.
               py_getitem result ''articles'' = Inr (JArr articles)
             \<and> n = JInt (int (length articles))
             \<and> int (length articles) \<le> max 1 (min page_size 20)
             \<and> http_log w' \<noteq> http_log w))"
proof (intro conjI allI impI)
  show "http_log w' = http_log w
          \<or> (\<exists>c api_key. http_log w' = http_log w @
                [(news_url, [(''q'', JStr c), (''pageSize'', JInt (max 1 (min page_size 20))),
                             (''sortBy'', JStr ''publishedAt''), (''language'', JStr ''en''),
                             (''apiKey'', JStr api_key)])])"
    by (rule news_requests [OF run])
next
  fix result n
  assume a: "r = Inr result \<and> py_getitem result ''count'' = Inr n"
  then have run': "get_news_for_city env city (JInt page_size) w = (Inr result, w')"
    using run by simp
  from news_count [OF run'] a obtain c api_key articles where
    "http_log w' = http_log w @
       [(news_url, [(''q'', JStr c), (''pageSize'', JInt (max 1 (min page_size 20))),
                    (''sortBy'', JStr ''publishedAt''), (''language'', JStr ''en''),
                    (''apiKey'', JStr api_key)])]"
    "result = JObj [(''city'', JStr c), (''count'', JInt (int (length articles))),
                    (''articles'', JArr articles)]"
    "n = JInt (int (length articles))"
    "int (length articles) \<le> max 1 (min page_size 20)"
    by blast
  then show "\<exists>articles.
               py_getitem result ''articles'' = Inr (JArr articles)
             \<and> n = JInt (int (length articles))
             \<and> int (length articles) \<le> max 1 (min page_size 20)
             \<and> http_log w' \<noteq> http_log w"
    by (auto simp: py_getitem_def)
qed

theorem news_page_size_is_clamped_witness:
  "\<exists>result w'.
     get_news_for_city example_news_env (JStr ''Pune city'') (JInt 50) empty_world = (Inr result, w')
   \<and> py_getitem result ''count'' = Inr (JInt 3)
   \<and> (\<exists>articles. py_getitem result ''articles'' = Inr (JArr articles) \<and> length articles = 3)
   \<and> (\<exists>c api_key. http_log w' =
         [(news_url, [(''q'', JStr c), (''pageSize'', JInt 20),
                      (''sortBy'', JStr ''publishedAt''), (''language'', JStr ''en''),
                      (''apiKey'', JStr api_key)])])"
proof -
  have "\<exists>result w'.
     get_news_for_city example_news_env (JStr ''Pune city'') (JInt 50) empty_world = (Inr result, w')
   \<and> py_getitem result ''count'' = Inr (JInt 3)"
    by (simp add: example_news_env_def example_article_def tool_defs py_defs io_defs example_defs
          normalize_city_def char_defs text_defs article_of_def Let_def)
  then obtain result w' where
    run: "get_news_for_city example_news_env (JStr ''Pune city'') (JInt 50) empty_world = (Inr result, w')"
    and count: "py_getitem result ''count'' = Inr (JInt 3)"
    by blast
  from news_page_size_is_clamped [OF run] count
  have log: "http_log w' = http_log empty_world
          \<or> (\<exists>c api_key. http_log w' = http_log empty_world @
                [(news_url, [(''q'', JStr c), (''pageSize'', JInt (max 1 (min 50 20))),
                             (''sortBy'', JStr ''publishedAt''), (''language'', JStr ''en''),
                             (''apiKey'', JStr api_key)])])"
    and res: "\<exists>articles.
               py_getitem result ''articles'' = Inr (JArr articles)
             \<and> JInt 3 = JInt (int (length articles))
             \<and> http_log w' \<noteq> http_log empty_world"
    by blast+
  from res obtain articles where
    "py_getitem result ''articles'' = Inr (JArr articles)" "length articles = 3"
    "http_log w' \<noteq> http_log empty_world"
    by auto
  then show ?thesis
    using run count log by (auto simp: empty_world_def)
qed

lemma upper_char_idem: "upper_char (upper_char c) = upper_char c"
  by (simp add: upper_char_def lower_letters_def upper_letters_def)

lemma upper_idem: "upper (upper s) = upper s"
  by (simp add: upper_def upper_char_idem)

lemma normalize_currency_upper: "normalize_currency x = Inr b \<Longrightarrow> upper b = b"
  by (cases x) (auto simp: normalize_currency_def upper_idem split: if_splits)

lemma rate_no_zero_division:
  "(if truthy amount then py_truediv converted amount else Inr JNull) \<noteq> Inl ZeroDivisionError"
  by (cases amount) (auto simp: py_truediv_def num_val_def split: option.splits)

lemma rate_value:
  assumes "(if truthy amount then py_truediv converted amount else Inr JNull) = Inr rate"
    and "num_val amount = Some a"
  shows "if a = 0 then rate = JNull else (\<exists>cv. num_val converted = Some cv \<and> rate = JFloat (cv / a))"
  using assms
  by (cases amount) (auto simp: py_truediv_def num_val_def split: option.splits if_splits)

text \<open>
  Claim C10. \<open>convert_currency\<close> never raises \<open>ZeroDivisionError\<close>. In a result that has a
  \<open>rate\<close>, \<open>base\<close> and \<open>target\<close> are the normalized codes, which are upper-case; for a
  numeric \<open>amount\<close> the rate is \<open>None\<close> when the amount is zero and \<open>converted / amount\<close>
  otherwise.
\<close>

theorem convert_currency_rate:
  assumes run: "convert_currency env amount base target w = (r, w')"
  shows "r \<noteq> Inl ZeroDivisionError
       \<and> (\<forall>result rate. r = Inr result \<and> py_getitem result ''rate'' = Inr rate \<longrightarrow>
            (\<exists>b t converted.
               normalize_currency base = Inr b \<and> normalize_currency target = Inr t
             \<and> upper b = b \<and> upper t = t
             \<and> result = JObj [(''amount'', amount), (''base'', JStr b), (''target'', JStr t),
                              (''converted'', converted), (''rate'', rate)]
             \<and> (\<forall>a. num_val amount = Some a \<longrightarrow>
                   (if a = 0 then rate = JNull
                    else (\<exists>cv. num_val converted = Some cv \<and> rate = JFloat (cv / a))))))"
proof (cases "normalize_currency base")
  case (Inl e)
  then have "r = Inl e" using run by (auto simp: convert_currency_def io_defs)
  moreover have "e \<noteq> ZeroDivisionError"
    using Inl by (cases base) (auto simp: normalize_currency_def split: if_splits)
  ultimately show ?thesis by simp
next
  case b: (Inr b)
  show ?thesis
  proof (cases "normalize_currency target")
    case (Inl e)
    then have "r = Inl e" using run b by (auto simp: convert_currency_def io_defs)
    moreover have "e \<noteq> ZeroDivisionError"
      using Inl by (cases target) (auto simp: normalize_currency_def split: if_splits)
    ultimately show ?thesis by simp
  next
    case t: (Inr t)
    have ub: "upper b = b" and ut: "upper t = t"
      using b t normalize_currency_upper by blast+
    define params where
      "params = [(''amount'', amount), (''from'', JStr b), (''to'', JStr t)]"
    define w1 where "w1 = w\<lparr>http_log := http_log w @ [(currency_url, params)]\<rparr>"
    show ?thesis
    proof (cases "http_get env currency_url params")
      case (Inl m)
      then have "r = Inr (error_result (JStr (''Currency request failed: '' @ m)))"
        using run b t ub ut
        by (auto simp: convert_currency_def Let_def io_defs requests_get_def params_def)
      then show ?thesis by (simp add: error_result_def py_getitem_def)
    next
      case resp: (Inr resp)
      show ?thesis
      proof (cases "json_body resp")
        case (Inl m)
        then have "r = Inr (error_result (JStr (''Currency request failed: '' @ m)))"
          using run b t ub ut resp
          by (auto simp: convert_currency_def Let_def io_defs requests_get_def params_def
                response_json_def)
        then show ?thesis by (simp add: error_result_def py_getitem_def)
      next
        case data: (Inr data)
        show ?thesis
        proof (cases "status_code resp = 200")
          case False
          then have "r = Inr (error_result data)"
            using run b t ub ut resp data
            by (auto simp: convert_currency_def Let_def io_defs requests_get_def params_def
                  response_json_def)
          then show ?thesis by (simp add: error_result_def py_getitem_def)
        next
          case True
          have core: "(r, w') =
            bind_io (lift (py_getitem data ''rates'')) (\<lambda>rates.
            bind_io (lift (py_getitem rates t)) (\<lambda>converted.
            bind_io (lift (if truthy amount then py_truediv converted amount else Inr JNull)) (\<lambda>rate.
              ret (JObj [(''amount'', amount), (''base'', JStr b), (''target'', JStr t),
                         (''converted'', converted), (''rate'', rate)])))) w1"
            using run b t ub ut resp data True
            by (simp add: convert_currency_def Let_def bind_lift_Inr)
               (simp add: io_defs requests_get_def params_def response_json_def w1_def)
          show ?thesis
          proof (cases "py_getitem data ''rates''")
            case (Inl e)
            then have "r = Inl e" using core by (simp add: io_defs)
            moreover have "e \<noteq> ZeroDivisionError"
              using Inl by (cases data) (auto simp: py_getitem_def split: option.splits)
            ultimately show ?thesis by simp
          next
            case rates: (Inr rates)
            show ?thesis
            proof (cases "py_getitem rates t")
              case (Inl e)
              then have "r = Inl e" using core rates by (simp add: io_defs)
              moreover have "e \<noteq> ZeroDivisionError"
                using Inl by (cases rates) (auto simp: py_getitem_def split: option.splits)
              ultimately show ?thesis by simp
            next
              case conv: (Inr converted)
              show ?thesis
              proof (cases "if truthy amount then py_truediv converted amount else Inr JNull")
                case (Inl e)
                then have "r = Inl e" using core rates conv by (simp add: io_defs)
                moreover have "e \<noteq> ZeroDivisionError"
                  using Inl rate_no_zero_division [of amount converted] by auto
                ultimately show ?thesis by simp
              next
                case rate: (Inr rate)
                then have res: "r = Inr (JObj [(''amount'', amount), (''base'', JStr b),
                     (''target'', JStr t), (''converted'', converted), (''rate'', rate)])"
                  using core rates conv by (simp add: io_defs)
                have "\<forall>a. num_val amount = Some a \<longrightarrow>
                   (if a = 0 then rate = JNull
                    else (\<exists>cv. num_val converted = Some cv \<and> rate = JFloat (cv / a)))"
                  using rate_value [OF rate] by blast
                then show ?thesis
                  using res b t ub ut by (simp add: py_getitem_def)
              qed
            qed
          qed
        qed
      qed
    qed
  qed
qed

theorem convert_currency_rate_witness:
  "\<exists>result.
     fst (convert_currency (example_env []) (JInt 500) (JStr ''inr'') (JStr '' usd'') empty_world)
       = Inr result
   \<and> py_getitem result ''rate'' = Inr (JFloat ((28 / 5) / 500))
   \<and> py_getitem result ''base'' = Inr (JStr ''INR'')
   \<and> py_getitem result ''target'' = Inr (JStr ''USD'')"
proof -
  define r where
    "r = fst (convert_currency (example_env []) (JInt 500) (JStr ''inr'') (JStr '' usd'') empty_world)"
  define w' where
    "w' = snd (convert_currency (example_env []) (JInt 500) (JStr ''inr'') (JStr '' usd'') empty_world)"
  have run: "convert_currency (example_env []) (JInt 500) (JStr ''inr'') (JStr '' usd'') empty_world
              = (r, w')"
    by (simp add: r_def w'_def)
  have ev: "\<exists>result. r = Inr result \<and> py_getitem result ''rate'' = Inr (JFloat (7 / 625))
              \<and> py_getitem result ''converted'' = Inr (JFloat (28 / 5))"
    unfolding r_def
    by (simp add: tool_defs py_defs io_defs example_defs normalize_currency_def char_defs text_defs)
  then obtain result where res: "r = Inr result"
    and rate: "py_getitem result ''rate'' = Inr (JFloat (7 / 625))"
    and cv: "py_getitem result ''converted'' = Inr (JFloat (28 / 5))"
    by blast
  have b: "normalize_currency (JStr ''inr'') = Inr ''INR''"
    and t: "normalize_currency (JStr '' usd'') = Inr ''USD''"
    by (simp_all add: normalize_currency_def char_defs text_defs)
  from convert_currency_rate [OF run] res rate b t
  obtain converted where
    "result = JObj [(''amount'', JInt 500), (''base'', JStr ''INR''), (''target'', JStr ''USD''),
                    (''converted'', converted), (''rate'', JFloat (7 / 625))]"
    by auto
  then show ?thesis
    using res by (simp add: r_def py_getitem_def)
qed

section \<open>The turn\<close>

lemma model_functions_nonempty: "get_model_functions \<noteq> []"
  by (simp add: get_model_functions_def FUNCTION_REGISTRY_def)

lemma call_model_world:
  "call_model env messages functions w = (r, w1) \<Longrightarrow>
   audit_log w1 = audit_log w \<and> http_log w1 = http_log w
   \<and> length (model_log w1) = Suc (length (model_log w))"
  by (auto simp: call_model_def Let_def)

lemma example_first_call:
  "call_model (example_env reply)
     [initial_system_message, JObj [(''role'', JStr ''user''), (''content'', JStr message)]]
     (Some get_model_functions) empty_world
   = (Inr (assistant_reply reply),
      snd (call_model (example_env reply)
             [initial_system_message, JObj [(''role'', JStr ''user''), (''content'', JStr message)]]
             (Some get_model_functions) empty_world))"
  by (simp add: call_model_def Let_def example_env_def model_functions_nonempty)

lemma example_extract_unknown:
  "extract_function_call (example_env reply_unknown) (assistant_reply reply_unknown) =
     Inr (JObj [(''name'', JStr ''get_stock_price''),
                (''arguments'', JObj [(''symbol'', JStr ''ACME'')])])"
  by (simp add: extract_function_call_def message_content_def assistant_reply_def bind_e_def
        py_getitem_def py_get_def example_env_def example_loads_def reply_defs)

lemma example_extract_currency:
  "extract_function_call (example_env reply_currency) (assistant_reply reply_currency) =
     Inr (JObj [(''name'', JStr ''convert_currency''),
                (''arguments'', JObj [(''amount'', JInt 500), (''base'', JStr ''INR''),
                                      (''target'', JStr ''USD'')])])"
  by (simp add: extract_function_call_def message_content_def assistant_reply_def bind_e_def
        py_getitem_def py_get_def example_env_def example_loads_def reply_defs)

text \<open>
  Claim C4. When the first model reply names a tool that is not in the registry, the
  dispatcher raises \<open>ValueError\<close> (unknown function) and changes nothing; the turn ends
  with the \<open>HTTPException\<close> of status 500 that carries it, the audit log is as before the
  turn and the model was called once: there is no second pass and no direct answer.
\<close>

theorem unknown_tool_is_turn_failure:
  assumes first: "call_model env
                    [initial_system_message,
                     JObj [(''role'', JStr ''user''), (''content'', JStr message)]]
                    (Some get_model_functions) w = (Inr resp, w1)"
    and fc: "extract_function_call env resp = Inr (JObj [(''name'', JStr n), (''arguments'', arguments)])"
    and unknown: "n \<notin> set (map fst FUNCTION_REGISTRY)"
  shows "call_function_by_name env (JStr n) arguments w1 =
           (Inl (ValueError (''Unknown function: '' @ n)), w1)
       \<and> chat_endpoint env message w =
           (Inl (HTTPException 500 (ValueError (''Unknown function: '' @ n))), w1)
       \<and> audit_log w1 = audit_log w
       \<and> length (model_log w1) = Suc (length (model_log w))"
proof -
  have none: "map_of FUNCTION_REGISTRY n = None"
    using unknown by (simp add: map_of_eq_None_iff)
  have call: "call_function_by_name env (JStr n) arguments w1 =
           (Inl (ValueError (''Unknown function: '' @ n)), w1)"
    using none by (simp add: call_function_by_name_def registry_lookup_def io_defs py_str_def)
  have turn: "chat_endpoint env message w =
           (Inl (HTTPException 500 (ValueError (''Unknown function: '' @ n))), w1)"
    using first fc call
    by (simp add: chat_endpoint_def Let_def io_defs py_getitem_def)
  from call turn call_model_world [OF first] show ?thesis by simp
qed

theorem unknown_tool_is_turn_failure_witness:
  "''get_stock_price'' \<notin> set (map fst FUNCTION_REGISTRY)
   \<and> fst (chat_endpoint (example_env reply_unknown) ''Price of ACME?'' empty_world) =
       Inl (HTTPException 500 (ValueError ''Unknown function: get_stock_price''))
   \<and> audit_log (snd (chat_endpoint (example_env reply_unknown) ''Price of ACME?'' empty_world)) = []
   \<and> length (model_log (snd (chat_endpoint (example_env reply_unknown) ''Price of ACME?'' empty_world))) = 1"
proof -
  have u: "''get_stock_price'' \<notin> set (map fst FUNCTION_REGISTRY)"
    by (simp add: FUNCTION_REGISTRY_def)
  from unknown_tool_is_turn_failure [OF example_first_call example_extract_unknown u]
  show ?thesis using u by (simp add: empty_world_def)
qed

text \<open>
  A date that \<open>normalize_date\<close> rejects leaves \<open>get_weather_for_date\<close> as an exception: the
  tool calls the normalizers outside any \<open>try\<close>, and the handler turns the exception into
  the \<open>HTTPException\<close> of status 500.
\<close>

lemma rejected_date_aborts_turn:
  assumes first: "call_model env
                    [initial_system_message,
                     JObj [(''role'', JStr ''user''), (''content'', JStr message)]]
                    (Some get_model_functions) w = (Inr resp, w1)"
    and fc: "extract_function_call env resp =
               Inr (JObj [(''name'', JStr ''get_weather_for_date''),
                          (''arguments'', JObj [(''city'', c0), (''date'', d0)])])"
    and city: "normalize_city c0 = Inr city"
    and date: "normalize_date env d0 = Inl e"
  shows "chat_endpoint env message w = (Inl (HTTPException 500 e), w1)"
proof -
  have "call_function_by_name env (JStr ''get_weather_for_date'')
          (JObj [(''city'', c0), (''date'', d0)]) w1 = (Inl e, w1)"
    using city date
    by (simp add: call_function_by_name_def registry_lookup_def FUNCTION_REGISTRY_def
          py_defs get_weather_for_date_def io_defs unexpected_keyword_def)
  then show ?thesis
    using first fc by (simp add: chat_endpoint_def Let_def io_defs py_getitem_def)
qed

text \<open>
  Claim C2 fails on the code. In the turn whose first model reply asks for the weather
  in Pune on \<open>notadate\<close>, the rejection of the date ends the turn with status 500: the
  model is called once and no tool result exists.
\<close>

theorem invalid_date_aborts_the_turn:
  "fst (chat_endpoint (example_env reply_weather_notadate) ''Weather in Pune on notadate'' empty_world)
     = Inl (HTTPException 500 (ValueError ''Invalid date format. Use YYYY-MM-DD or today/tomorrow.''))
   \<and> length (model_log (snd (chat_endpoint (example_env reply_weather_notadate)
                                 ''Weather in Pune on notadate'' empty_world))) = 1
   \<and> audit_log (snd (chat_endpoint (example_env reply_weather_notadate)
                                 ''Weather in Pune on notadate'' empty_world)) = []"
  by (simp add: controller_defs example_defs py_defs io_defs reply_defs tool_defs Let_def
        normalize_city_def normalize_date_def char_defs text_defs date_defs)

text \<open>
  A reply text that is JSON but not an object passes \<open>json.loads\<close>, and the \<open>.get\<close> that
  follows, outside the \<open>try\<close>, raises.
\<close>

lemma extract_not_object:
  assumes "message_content response = Inr (JStr s)" and "json_loads env s = Some parsed"
    and "\<forall>kvs. parsed \<noteq> JObj kvs"
  shows "extract_function_call env response = Inl AttributeError"
  using assms by (cases parsed) (auto simp: extract_function_call_def bind_e_def py_get_def)

text \<open>
  Claim C3 fails on the code. For the reply text \<open>[]\<close>, \<open>extract_function_call\<close> raises
  \<open>AttributeError\<close> instead of returning \<open>None\<close>, and the turn ends with that exception
  instead of a direct answer.
\<close>

theorem extract_function_call_raises_on_json_array:
  "extract_function_call (example_env reply_array) (assistant_reply reply_array) = Inl AttributeError
   \<and> fst (chat_endpoint (example_env reply_array) ''Hello'' empty_world) = Inl AttributeError"
  by (simp add: controller_defs example_defs py_defs io_defs reply_defs Let_def)

text \<open>
  Claim C7, as stated, fails. In a turn that calls \<open>convert_currency\<close>, the last message of
  the second conversation is the instruction with the rule for news: bullet points with
  title and source.
\<close>

theorem news_rule_reaches_currency_tool:
  "fst (chat_endpoint (example_env reply_currency) ''Convert 500 INR to USD'' empty_world) =
     Inr (JObj [(''type'', JStr ''function_call''), (''function'', JStr ''convert_currency''),
                (''function_args'', JObj [(''amount'', JInt 500), (''base'', JStr ''INR''),
                                          (''target'', JStr ''USD'')]),
                (''function_result'',
                   JObj [(''amount'', JInt 500), (''base'', JStr ''INR''), (''target'', JStr ''USD''),
                         (''converted'', JFloat (28 / 5)), (''rate'', JFloat (7 / 625))]),
                (''response'', JStr ''Done.'')])
   \<and> last (last (model_log (snd (chat_endpoint (example_env reply_currency)
                                    ''Convert 500 INR to USD'' empty_world)))) =
       JObj [(''role'', JStr ''system''),
             (''content'', JStr ''Now write a final user-friendly answer. Do NOT call any tool. Do NOT return JSON. Summarize the news in bullet points with title + source.'')]"
  by (simp add: controller_defs example_defs py_defs io_defs reply_defs tool_defs Let_def
        normalize_currency_def char_defs text_defs final_instruction_def)

text \<open>
  Claim C7, amended. After a tool call that returned, the model is called a second time,
  with the first conversation followed by the assistant message recording the call, the
  function message carrying the result, and one fixed system message, the same for every
  tool: it forbids tool calls and JSON and asks for the news in bullet points with title
  and source.
\<close>

theorem summary_instruction_is_the_same_for_every_tool:
  assumes first: "call_model env
                    [initial_system_message,
                     JObj [(''role'', JStr ''user''), (''content'', JStr message)]]
                    (Some get_model_functions) w = (Inr resp, w1)"
    and fc: "extract_function_call env resp = Inr (JObj [(''name'', name), (''arguments'', arguments)])"
    and tool: "call_function_by_name env name arguments w1 = (Inr result, w2)"
  shows "model_log (snd (chat_endpoint env message w)) =
           model_log w1 @
             [[initial_system_message,
               JObj [(''role'', JStr ''user''), (''content'', JStr message)],
               JObj [(''role'', JStr ''assistant''), (''content'', JNull),
                     (''function_call'', JObj [(''name'', name), (''arguments'', arguments)])],
               JObj [(''role'', JStr ''function''), (''name'', name),
                     (''content'', JStr (json_dumps env result))],
               final_instruction]]
       \<and> py_getitem final_instruction ''content'' =
           Inr (JStr ''Now write a final user-friendly answer. Do NOT call any tool. Do NOT return JSON. Summarize the news in bullet points with title + source.'')"
proof -
  define msgs2 where "msgs2 =
              [initial_system_message,
               JObj [(''role'', JStr ''user''), (''content'', JStr message)],
               JObj [(''role'', JStr ''assistant''), (''content'', JNull),
                     (''function_call'', JObj [(''name'', name), (''arguments'', arguments)])],
               JObj [(''role'', JStr ''function''), (''name'', name),
                     (''content'', JStr (json_dumps env result))],
               final_instruction]"
  define r2 where "r2 = fst (call_model env msgs2 None w2)"
  have second: "call_model env msgs2 None w2 = (r2, w2\<lparr>model_log := model_log w2 @ [msgs2]\<rparr>)"
    by (simp add: r2_def call_model_def)
  have same: "model_log w2 = model_log w1"
    using dispatcher_model [of env name arguments] tool
    unfolding preserves_def by (metis snd_conv)
  have "model_log (snd (chat_endpoint env message w)) = model_log w2 @ [msgs2]"
    using first fc tool second
    by (cases r2; cases "message_content (projr r2)")
       (simp_all add: chat_endpoint_def Let_def io_defs py_getitem_def msgs2_def [symmetric])
  then have "model_log (snd (chat_endpoint env message w)) = model_log w1 @ [msgs2]"
    using same by simp
  moreover have "py_getitem final_instruction ''content'' =
           Inr (JStr ''Now write a final user-friendly answer. Do NOT call any tool. Do NOT return JSON. Summarize the news in bullet points with title + source.'')"
    by (simp add: final_instruction_def py_getitem_def)
  ultimately show ?thesis
    unfolding msgs2_def by blast
qed

theorem summary_instruction_is_the_same_for_every_tool_witness:
  "last (last (model_log (snd (chat_endpoint (example_env reply_currency)
                                  ''Convert 500 INR to USD'' empty_world)))) = final_instruction
   \<and> call_function_by_name (example_env reply_currency) (JStr ''convert_currency'')
        (JObj [(''amount'', JInt 500), (''base'', JStr ''INR''), (''target'', JStr ''USD'')])
        (snd (call_model (example_env reply_currency)
             [initial_system_message,
              JObj [(''role'', JStr ''user''), (''content'', JStr ''Convert 500 INR to USD'')]]
             (Some get_model_functions) empty_world))
       = (Inr (JObj [(''amount'', JInt 500), (''base'', JStr ''INR''), (''target'', JStr ''USD''),
                     (''converted'', JFloat (28 / 5)), (''rate'', JFloat (7 / 625))]),
          snd (call_function_by_name (example_env reply_currency) (JStr ''convert_currency'')
        (JObj [(''amount'', JInt 500), (''base'', JStr ''INR''), (''target'', JStr ''USD'')])
        (snd (call_model (example_env reply_currency)
             [initial_system_message,
              JObj [(''role'', JStr ''user''), (''content'', JStr ''Convert 500 INR to USD'')]]
             (Some get_model_functions) empty_world))))"
proof -
  have t: "call_function_by_name (example_env reply_currency) (JStr ''convert_currency'')
        (JObj [(''amount'', JInt 500), (''base'', JStr ''INR''), (''target'', JStr ''USD'')])
        (snd (call_model (example_env reply_currency)
             [initial_system_message,
              JObj [(''role'', JStr ''user''), (''content'', JStr ''Convert 500 INR to USD'')]]
             (Some get_model_functions) empty_world))
       = (Inr (JObj [(''amount'', JInt 500), (''base'', JStr ''INR''), (''target'', JStr ''USD''),
                     (''converted'', JFloat (28 / 5)), (''rate'', JFloat (7 / 625))]),
          snd (call_function_by_name (example_env reply_currency) (JStr ''convert_currency'')
        (JObj [(''amount'', JInt 500), (''base'', JStr ''INR''), (''target'', JStr ''USD'')])
        (snd (call_model (example_env reply_currency)
             [initial_system_message,
              JObj [(''role'', JStr ''user''), (''content'', JStr ''Convert 500 INR to USD'')]]
             (Some get_model_functions) empty_world))))"
    by (simp add: example_convert)
  from summary_instruction_is_the_same_for_every_tool [OF example_first_call example_extract_currency t]
  show ?thesis using t by simp
qed

end
